theory Spec2Isabelle
  imports Main
begin

section \<open>Conventions\<close>

text \<open>
  Instants (JavaScript \<open>Date\<close> values, \<open>Date.now()\<close>) are milliseconds since the
  epoch, as an unbounded integer. Two clocks occur in the source: the application
  server's (\<open>new Date()\<close>, \<open>Date.now()\<close>), written \<open>now\<close>, and the database's
  (SQL \<open>NOW()\<close>), written \<open>dbNow\<close>; one reading of each is taken per operation.
  Tables keep the instants and strings they are given (column widths, the rounding of
  \<open>DATETIME\<close> and the collation of the columns are not modelled; the keys compared are
  lower-case hexadecimal digests). Output of the random generator is an argument of the
  operation that draws it. Console output is left out.
\<close>

type_synonym time = int

text \<open>JavaScript's \<open>a || b\<close> on strings: the empty string is falsy.\<close>

definition js_or :: "string \<Rightarrow> string \<Rightarrow> string" where
  "js_or a b = (if a \<noteq> [] then a else b)"

text \<open>The same on a property that may be \<open>undefined\<close>.\<close>

definition opt_or :: "string option \<Rightarrow> string \<Rightarrow> string" where
  "opt_or a b = (case a of None \<Rightarrow> b | Some s \<Rightarrow> js_or s b)"

text \<open>\<open>if (x)\<close> on a value that is a string or \<open>undefined\<close>/\<open>null\<close>.\<close>

definition truthy :: "string option \<Rightarrow> bool" where
  "truthy a = (case a of None \<Rightarrow> False | Some s \<Rightarrow> s \<noteq> [])"

section \<open>Session store (session-store.ts)\<close>

definition SESSION_MAX_AGE_MS :: int where
  "SESSION_MAX_AGE_MS = 30 * 24 * 60 * 60 * 1000"

definition SESSION_REFRESH_THRESHOLD_MS :: int where
  "SESSION_REFRESH_THRESHOLD_MS = 15 * 24 * 60 * 60 * 1000"

definition SESSION_COOKIE_NAME :: string where
  "SESSION_COOKIE_NAME = ''angple_sid''"

definition CSRF_COOKIE_NAME :: string where
  "CSRF_COOKIE_NAME = ''angple_csrf''"

text \<open>
  A row of table \<open>angple_sessions\<close>. The table has a unique key on
  \<open>session_id_hash\<close>, so it is a partial map from the hash to the rest of the row.
\<close>

record SessionRow =
  s_mb_id :: string
  csrf_token :: string
  s_ip :: "string option"
  s_user_agent :: "string option"
  s_created_at :: time
  last_active_at :: time
  s_expires_at :: time

type_synonym session_table = "string \<rightharpoonup> SessionRow"

record SessionData =
  sessionId :: string
  mbId :: string
  csrfToken :: string
  ip :: "string option"
  userAgent :: "string option"
  createdAt :: time
  lastActiveAt :: time
  expiresAt :: time

datatype db_error = DuplicateKey

text \<open>
  \<open>createSession\<close>. The two random 32-byte hex strings (\<open>generateSessionId()\<close>,
  \<open>generateCsrfToken()\<close>) and \<open>hashSessionId\<close> (SHA-256, hex) are arguments. The
  \<open>INSERT\<close> throws on a hash that is already a key.
\<close>

definition createSession ::
  "(string \<Rightarrow> string) \<Rightarrow> session_table \<Rightarrow> time \<Rightarrow> time \<Rightarrow> string \<Rightarrow> string \<Rightarrow>
   string \<Rightarrow> string option \<Rightarrow> string option \<Rightarrow>
   db_error + ((string \<times> string \<times> time) \<times> session_table)" where
  "createSession hashSessionId sess now dbNow generatedSessionId generatedCsrfToken
      memberId metaIp metaUserAgent =
    (let sid = generatedSessionId;
         sessionIdHash = hashSessionId sid;
         csrf = generatedCsrfToken;
         expires = now + SESSION_MAX_AGE_MS
     in if sess sessionIdHash \<noteq> None then Inl DuplicateKey
        else Inr ((sid, csrf, expires),
                  sess(sessionIdHash \<mapsto>
                    \<lparr> s_mb_id = memberId, csrf_token = csrf, s_ip = metaIp,
                      s_user_agent = map_option (take 512) metaUserAgent,
                      s_created_at = dbNow, last_active_at = dbNow,
                      s_expires_at = expires \<rparr>)))"

text \<open>
  \<open>getSession\<close>: look the hash up; an expired row is deleted; otherwise the sliding
  window is applied and the data of the row as it was read is returned.
\<close>

definition getSession ::
  "(string \<Rightarrow> string) \<Rightarrow> session_table \<Rightarrow> time \<Rightarrow> time \<Rightarrow> string \<Rightarrow>
   SessionData option \<times> session_table" where
  "getSession hashSessionId sess now dbNow sid =
    (let sessionIdHash = hashSessionId sid
     in (case sess sessionIdHash of
          None \<Rightarrow> (None, sess)
        | Some row \<Rightarrow>
            if now > s_expires_at row then (None, sess(sessionIdHash := None))
            else
              let lastActive = last_active_at row;
                  sess' =
                    (if now - lastActive > SESSION_REFRESH_THRESHOLD_MS
                     then sess(sessionIdHash \<mapsto>
                            row\<lparr> last_active_at := dbNow,
                                 s_expires_at := now + SESSION_MAX_AGE_MS \<rparr>)
                     else if now - lastActive > 5 * 60 * 1000
                     then sess(sessionIdHash \<mapsto> row\<lparr> last_active_at := dbNow \<rparr>)
                     else sess)
              in (Some \<lparr> sessionId = sid, mbId = s_mb_id row, csrfToken = csrf_token row,
                          ip = s_ip row, userAgent = s_user_agent row,
                          createdAt = s_created_at row, lastActiveAt = last_active_at row,
                          expiresAt = s_expires_at row \<rparr>,
                  sess')))"

definition destroySession ::
  "(string \<Rightarrow> string) \<Rightarrow> session_table \<Rightarrow> string \<Rightarrow> session_table" where
  "destroySession hashSessionId sess sid = sess(hashSessionId sid := None)"

section \<open>Refresh token store (token-store.ts)\<close>

text \<open>
  A row of table \<open>angple_refresh_tokens\<close>. \<open>token_hash\<close> is indexed but not unique,
  so the table is the list of its rows in insertion order (the order of the
  auto-increment \<open>id\<close>), and \<open>SELECT ... WHERE token_hash = ? LIMIT 1\<close> is the first
  row with that hash.
\<close>

record RefreshTokenRow =
  token_hash :: string
  rt_mb_id :: string
  family_id :: string
  rt_ip :: "string option"
  rt_user_agent :: "string option"
  rt_created_at :: time
  rt_expires_at :: time
  revoked_at :: "time option"

type_synonym token_table = "RefreshTokenRow list"

definition storeRefreshToken ::
  "token_table \<Rightarrow> time \<Rightarrow> string \<Rightarrow> string \<Rightarrow> string \<Rightarrow> time \<Rightarrow>
   string option \<Rightarrow> string option \<Rightarrow> token_table" where
  "storeRefreshToken toks dbNow tokenHash memberId familyId expires metaIp metaUserAgent =
     toks @ [\<lparr> token_hash = tokenHash, rt_mb_id = memberId, family_id = familyId,
               rt_ip = metaIp, rt_user_agent = map_option (take 512) metaUserAgent,
               rt_created_at = dbNow, rt_expires_at = expires, revoked_at = None \<rparr>]"

definition revokeToken :: "token_table \<Rightarrow> time \<Rightarrow> string \<Rightarrow> token_table" where
  "revokeToken toks dbNow tokenHash =
     map (\<lambda>r. if token_hash r = tokenHash \<and> revoked_at r = None
              then r\<lparr> revoked_at := Some dbNow \<rparr> else r) toks"

definition revokeTokenFamily :: "token_table \<Rightarrow> time \<Rightarrow> string \<Rightarrow> token_table" where
  "revokeTokenFamily toks dbNow familyId =
     map (\<lambda>r. if family_id r = familyId \<and> revoked_at r = None
              then r\<lparr> revoked_at := Some dbNow \<rparr> else r) toks"

definition revokeAllUserTokens :: "token_table \<Rightarrow> time \<Rightarrow> string \<Rightarrow> token_table" where
  "revokeAllUserTokens toks dbNow memberId =
     map (\<lambda>r. if rt_mb_id r = memberId \<and> revoked_at r = None
              then r\<lparr> revoked_at := Some dbNow \<rparr> else r) toks"

definition cleanupExpiredTokens :: "token_table \<Rightarrow> time \<Rightarrow> nat \<times> token_table" where
  "cleanupExpiredTokens toks dbNow =
     (length (filter (\<lambda>r. rt_expires_at r < dbNow) toks),
      filter (\<lambda>r. \<not> rt_expires_at r < dbNow) toks)"

text \<open>
  \<open>findValidToken\<close>: the result is the pair \<open>(mbId, familyId)\<close> of the row, with the
  table as the call leaves it.
\<close>

definition findValidToken ::
  "token_table \<Rightarrow> time \<Rightarrow> time \<Rightarrow> string \<Rightarrow> (string \<times> string) option \<times> token_table" where
  "findValidToken toks now dbNow tokenHash =
     (case find (\<lambda>r. token_hash r = tokenHash) toks of
        None \<Rightarrow> (None, toks)
      | Some row \<Rightarrow>
          if revoked_at row \<noteq> None
          then (None, revokeTokenFamily toks dbNow (family_id row))
          else if now > rt_expires_at row then (None, toks)
          else (Some (rt_mb_id row, family_id row), toks))"

section \<open>Signed tokens (jwt.ts)\<close>

definition REFRESH_TOKEN_TTL_MS :: int where
  "REFRESH_TOKEN_TTL_MS = 7 * 24 * 60 * 60 * 1000"

text \<open>
  The claims of a verified token as the library hands them over (each may be absent),
  and the payload \<open>verifyToken\<close> makes of them.
\<close>

record JwtClaims =
  claim_sub :: "string option"
  claim_nickname :: "string option"
  claim_level :: "int option"
  claim_email :: "string option"

record JwtPayload =
  sub :: "string option"
  nickname :: string
  level :: int
  jwt_email :: string

text \<open>
  The signing library and the digest are arguments:
  \<^item> \<open>jwtVerify tok now\<close>: the claims of \<open>tok\<close> when its HS256 signature under
    \<open>JWT_SECRET\<close> verifies, its issuer is \<open>angple\<close> and it has not expired at \<open>now\<close>;
    \<open>None\<close> when the library throws;
  \<^item> \<open>signRefresh mbId now\<close>: the signed token with subject \<open>mbId\<close>, issued at \<open>now\<close>,
    valid seven days, issuer \<open>angple\<close> (the library writes the times of issue and of
    expiry in whole seconds, and the token has no other claim);
  \<^item> \<open>hashToken\<close>: SHA-256 in hexadecimal.
\<close>

record jose =
  jwtVerify :: "string \<Rightarrow> time \<Rightarrow> JwtClaims option"
  signRefresh :: "string \<Rightarrow> time \<Rightarrow> string"
  hashToken :: "string \<Rightarrow> string"

definition verifyToken :: "jose \<Rightarrow> time \<Rightarrow> string \<Rightarrow> JwtPayload option" where
  "verifyToken J now token =
     (case jwtVerify J token now of
        None \<Rightarrow> None
      | Some payload \<Rightarrow>
          Some \<lparr> sub = claim_sub payload,
                 nickname = opt_or (claim_nickname payload) [],
                 level = (case claim_level payload of None \<Rightarrow> 0 | Some n \<Rightarrow> n),
                 jwt_email = opt_or (claim_email payload) [] \<rparr>)"

text \<open>
  \<open>generateRefreshToken\<close>: \<open>generatedFamilyId\<close> is what \<open>generateFamilyId()\<close> returns
  when it is called, that is when no family id, or an empty one, is passed in.
\<close>

definition generateRefreshToken ::
  "jose \<Rightarrow> token_table \<Rightarrow> time \<Rightarrow> time \<Rightarrow> string \<Rightarrow> string \<Rightarrow>
   string option \<Rightarrow> string option \<Rightarrow> string option \<Rightarrow>
   (string \<times> string) \<times> token_table" where
  "generateRefreshToken J toks now dbNow generatedFamilyId memberId metaIp metaUserAgent
      metaFamilyId =
    (let familyId = opt_or metaFamilyId generatedFamilyId;
         token = signRefresh J memberId now;
         tokenHash = hashToken J token;
         expires = now + REFRESH_TOKEN_TTL_MS
     in ((token, familyId),
         storeRefreshToken toks dbNow tokenHash memberId familyId expires
           metaIp metaUserAgent))"

text \<open>\<open>rotateRefreshToken\<close>: the new token and the member id, or nothing.\<close>

definition rotateRefreshToken ::
  "jose \<Rightarrow> token_table \<Rightarrow> time \<Rightarrow> time \<Rightarrow> string \<Rightarrow> string \<Rightarrow>
   string option \<Rightarrow> string option \<Rightarrow> (string \<times> string) option \<times> token_table" where
  "rotateRefreshToken J toks now dbNow generatedFamilyId oldToken metaIp metaUserAgent =
    (case verifyToken J now oldToken of
       None \<Rightarrow> (None, toks)
     | Some payload \<Rightarrow>
         if \<not> truthy (sub payload) then (None, toks)
         else
           let oldTokenHash = hashToken J oldToken
           in (case findValidToken toks now dbNow oldTokenHash of
                 (None, toks1) \<Rightarrow> (None, toks1)
               | (Some (memberId, familyId), toks1) \<Rightarrow>
                   (let toks2 = revokeToken toks1 dbNow oldTokenHash;
                        issued = generateRefreshToken J toks2 now dbNow generatedFamilyId
                                   memberId metaIp metaUserAgent (Some familyId)
                    in (Some (fst (fst issued), memberId), snd issued))))"

text \<open>
  Rotating a token repeatedly, as a client does: each step presents the token the step
  before returned. A step is the two clock readings, the value \<open>generateFamilyId()\<close>
  would return, and the metadata of the request. The result is the list of the tokens
  presented and obtained, oldest first, with the table after the last step, or \<open>None\<close>
  when a rotation returns nothing.
\<close>

fun rotate_chain ::
  "jose \<Rightarrow> token_table \<Rightarrow> string \<Rightarrow>
   (time \<times> time \<times> string \<times> string option \<times> string option) list \<Rightarrow>
   (string list \<times> token_table) option" where
  "rotate_chain J toks tok [] = Some ([tok], toks)"
| "rotate_chain J toks tok ((now, dbNow, generated, metaIp, metaUserAgent) # steps) =
     (case rotateRefreshToken J toks now dbNow generated tok metaIp metaUserAgent of
        (None, toks') \<Rightarrow> None
      | (Some (tok', memberId), toks') \<Rightarrow>
          (case rotate_chain J toks' tok' steps of
             None \<Rightarrow> None
           | Some (ts, final) \<Rightarrow> Some (tok # ts, final)))"

section \<open>OAuth state (oauth/state.ts)\<close>

datatype SocialProvider = Naver | Kakao | Google | Facebook | Apple | Twitter | Payco

text \<open>The string a provider is in the source (the literal type \<open>SocialProvider\<close>).\<close>

fun provider_name :: "SocialProvider \<Rightarrow> string" where
  "provider_name Naver = ''naver''"
| "provider_name Kakao = ''kakao''"
| "provider_name Google = ''google''"
| "provider_name Facebook = ''facebook''"
| "provider_name Apple = ''apple''"
| "provider_name Twitter = ''twitter''"
| "provider_name Payco = ''payco''"

definition STATE_COOKIE_NAME :: string where
  "STATE_COOKIE_NAME = ''oauth_state''"

definition STATE_MAX_AGE :: int where
  "STATE_MAX_AGE = 600"

record OAuthStateData =
  state :: string
  sd_provider :: SocialProvider
  redirect :: string
  timestamp :: time

text \<open>
  The cookie jar of a browser as the server reads and writes it: a value by name.
  The attributes of a cookie (path, domain, \<open>httpOnly\<close>, \<open>sameSite\<close>, \<open>secure\<close>,
  \<open>maxAge\<close>) are not modelled; a cookie that the browser dropped is absent.
\<close>

type_synonym cookies = "string \<rightharpoonup> string"

text \<open>
  \<open>createOAuthState\<close>: \<open>generatedState\<close> is the result of \<open>generateRandomState()\<close>;
  \<open>JSON_stringify\<close> serialises the state data.
\<close>

definition createOAuthState ::
  "(OAuthStateData \<Rightarrow> string) \<Rightarrow> cookies \<Rightarrow> time \<Rightarrow> string \<Rightarrow> SocialProvider \<Rightarrow> string
   \<Rightarrow> string \<times> cookies" where
  "createOAuthState JSON_stringify cks now generatedState prov redirectUrl =
    (let st = generatedState;
         data = \<lparr> state = st, sd_provider = prov, redirect = redirectUrl,
                   timestamp = now \<rparr>
     in (st, cks(STATE_COOKIE_NAME \<mapsto> JSON_stringify data)))"

text \<open>
  \<open>validateOAuthState\<close>: \<open>JSON_parse raw\<close> is the state data that \<open>raw\<close> parses to,
  as the source types it, and \<open>None\<close> when parsing throws (the \<open>catch\<close> branch).
\<close>

definition validateOAuthState ::
  "(string \<Rightarrow> OAuthStateData option) \<Rightarrow> cookies \<Rightarrow> time \<Rightarrow> string
   \<Rightarrow> OAuthStateData option \<times> cookies" where
  "validateOAuthState JSON_parse cks now st =
    (case cks STATE_COOKIE_NAME of
       None \<Rightarrow> (None, cks)
     | Some raw \<Rightarrow>
         if raw = [] then (None, cks)
         else (case JSON_parse raw of
                 None \<Rightarrow> (None, cks)
               | Some data \<Rightarrow>
                   if state data \<noteq> st then (None, cks)
                   else if now - timestamp data > STATE_MAX_AGE * 1000 then (None, cks)
                   else (Some data, cks(STATE_COOKIE_NAME := None))))"

section \<open>Provider registry (oauth/provider-registry.ts)\<close>

definition VALID_PROVIDERS :: "SocialProvider list" where
  "VALID_PROVIDERS = [Naver, Kakao, Google, Facebook, Apple, Twitter, Payco]"

text \<open>\<open>String.prototype.toLowerCase\<close> on the characters of the model.\<close>

definition lower_char :: "char \<Rightarrow> char" where
  "lower_char c =
     (case map_of (zip ''ABCDEFGHIJKLMNOPQRSTUVWXYZ'' ''abcdefghijklmnopqrstuvwxyz'') c of
        None \<Rightarrow> c
      | Some d \<Rightarrow> d)"

definition toLowerCase :: "string \<Rightarrow> string" where
  "toLowerCase s = map lower_char s"

definition isValidProvider :: "string \<Rightarrow> bool" where
  "isValidProvider prov = (toLowerCase prov \<in> set (map provider_name VALID_PROVIDERS))"

definition normalizeProviderName :: "string \<Rightarrow> SocialProvider option" where
  "normalizeProviderName name =
     (let lower = toLowerCase name
      in find (\<lambda>p. provider_name p = lower) VALID_PROVIDERS)"

section \<open>Provider adapters (oauth/providers/*.ts)\<close>

text \<open>
  The common profile shape (\<open>OAuthUserProfile\<close>); \<open>provider\<close> is the provider as a
  string, \<open>profile_identifier\<close> is the field \<open>identifier\<close> of the source.
\<close>

record OAuthUserProfile =
  provider :: string
  profile_identifier :: string
  displayName :: string
  email :: string
  photoUrl :: string
  profileUrl :: string

text \<open>
  The payload of each provider, as the interface of its adapter declares it: a required
  field is a value, an optional field (\<open>name?: string\<close>) is an \<open>option\<close>, a nested
  optional object is an \<open>option\<close> of a record.
\<close>

record NaverProfileResponse =
  nv_id :: string
  nv_nickname :: "string option"
  nv_email :: "string option"
  nv_profile_image :: "string option"
  nv_name :: "string option"

record KakaoProperties =
  kp_nickname :: "string option"
  kp_thumbnail_image :: "string option"
  kp_profile_image :: "string option"

record KakaoAccountProfile =
  kap_nickname :: "string option"
  kap_thumbnail_image_url :: "string option"

record KakaoAccount =
  ka_email :: "string option"
  ka_profile :: "KakaoAccountProfile option"

record KakaoProfileResponse =
  kk_id :: int
  kk_properties :: "KakaoProperties option"
  kk_kakao_account :: "KakaoAccount option"

record GoogleProfileResponse =
  gg_sub :: string
  gg_name :: "string option"
  gg_given_name :: "string option"
  gg_family_name :: "string option"
  gg_picture :: "string option"
  gg_email :: "string option"
  gg_email_verified :: "bool option"

record FacebookPictureData =
  fpd_url :: "string option"

record FacebookPicture =
  fp_data :: "FacebookPictureData option"

record FacebookProfileResponse =
  fb_id :: string
  fb_name :: "string option"
  fb_email :: "string option"
  fb_picture :: "FacebookPicture option"

record AppleIdTokenPayload =
  ap_sub :: string
  ap_email :: "string option"

record TwitterProfileResponse =
  tw_id :: string
  tw_name :: "string option"
  tw_username :: "string option"
  tw_profile_image_url :: "string option"

record PaycoHeader =
  isSuccessful :: bool
  resultCode :: int
  resultMessage :: string

record PaycoMember =
  pm_idNo :: "string option"
  pm_email :: "string option"
  pm_name :: "string option"
  pm_mobile :: "string option"
  pm_birthdayMMdd :: "string option"
  pm_profileImageUrl :: "string option"
  pm_genderCode :: "string option"

record PaycoData =
  pd_member :: "PaycoMember option"

record PaycoProfileResponse =
  pc_header :: PaycoHeader
  pc_data :: "PaycoData option"

text \<open>
  \<open>String(n)\<close> of an integral number: its decimal digits, with a minus sign below zero
  (exact for the integers a JavaScript number holds exactly, below \<open>10^21\<close>).
\<close>

definition digit_char :: "nat \<Rightarrow> char" where
  "digit_char d = (''0123456789'' ! d)"

fun decimal :: "nat \<Rightarrow> string" where
  "decimal n = (if n < 10 then [digit_char n] else decimal (n div 10) @ [digit_char (n mod 10)])"

declare decimal.simps [simp del]

definition String_of_number :: "int \<Rightarrow> string" where
  "String_of_number i = (if i < 0 then CHR ''-'' # decimal (nat (- i)) else decimal (nat i))"

text \<open>\<open>NaverProvider.parseUserProfile\<close> (the payload is the object under \<open>response\<close>).\<close>

definition NaverProvider_parseUserProfile :: "NaverProfileResponse \<Rightarrow> OAuthUserProfile" where
  "NaverProvider_parseUserProfile r =
     \<lparr> provider = ''naver'',
       profile_identifier = nv_id r,
       displayName = opt_or (nv_nickname r) (opt_or (nv_name r) []),
       email = opt_or (nv_email r) [],
       photoUrl = opt_or (nv_profile_image r) [],
       profileUrl = [] \<rparr>"

definition KakaoProvider_parseUserProfile :: "KakaoProfileResponse \<Rightarrow> OAuthUserProfile" where
  "KakaoProvider_parseUserProfile d =
     \<lparr> provider = ''kakao'',
       profile_identifier = String_of_number (kk_id d),
       displayName =
         opt_or (Option.bind (kk_properties d) kp_nickname)
           (opt_or (Option.bind (Option.bind (kk_kakao_account d) ka_profile) kap_nickname) []),
       email = opt_or (Option.bind (kk_kakao_account d) ka_email) [],
       photoUrl =
         opt_or (Option.bind (kk_properties d) kp_thumbnail_image)
           (opt_or (Option.bind (Option.bind (kk_kakao_account d) ka_profile)
                      kap_thumbnail_image_url) []),
       profileUrl = [] \<rparr>"

definition GoogleProvider_parseUserProfile :: "GoogleProfileResponse \<Rightarrow> OAuthUserProfile" where
  "GoogleProvider_parseUserProfile d =
     \<lparr> provider = ''google'',
       profile_identifier = gg_sub d,
       displayName = opt_or (gg_name d) [],
       email = opt_or (gg_email d) [],
       photoUrl = opt_or (gg_picture d) [],
       profileUrl = [] \<rparr>"

definition FacebookProvider_parseUserProfile ::
  "FacebookProfileResponse \<Rightarrow> OAuthUserProfile" where
  "FacebookProvider_parseUserProfile d =
     \<lparr> provider = ''facebook'',
       profile_identifier = fb_id d,
       displayName = opt_or (fb_name d) [],
       email = opt_or (fb_email d) [],
       photoUrl = opt_or (Option.bind (Option.bind (fb_picture d) fp_data) fpd_url) [],
       profileUrl = ''https://www.facebook.com/'' @ fb_id d \<rparr>"

definition AppleProvider_parseUserProfile :: "AppleIdTokenPayload \<Rightarrow> OAuthUserProfile" where
  "AppleProvider_parseUserProfile d =
     \<lparr> provider = ''apple'',
       profile_identifier = ap_sub d,
       displayName = [],
       email = opt_or (ap_email d) [],
       photoUrl = [],
       profileUrl = [] \<rparr>"

text \<open>\<open>TwitterProvider.parseUserProfile\<close> (the payload is the object under \<open>data\<close>).\<close>

definition TwitterProvider_parseUserProfile ::
  "TwitterProfileResponse \<Rightarrow> OAuthUserProfile" where
  "TwitterProvider_parseUserProfile d =
     \<lparr> provider = ''twitter'',
       profile_identifier = tw_id d,
       displayName = opt_or (tw_name d) (opt_or (tw_username d) []),
       email = [],
       photoUrl = opt_or (tw_profile_image_url d) [],
       profileUrl = (if truthy (tw_username d) then ''https://x.com/'' @ the (tw_username d)
                     else []) \<rparr>"

definition PaycoProvider_parseUserProfile :: "PaycoProfileResponse \<Rightarrow> OAuthUserProfile" where
  "PaycoProvider_parseUserProfile d =
     (let member = Option.bind (pc_data d) pd_member
      in \<lparr> provider = ''payco'',
           profile_identifier = opt_or (Option.bind member pm_idNo) [],
           displayName = opt_or (Option.bind member pm_name) [],
           email = opt_or (Option.bind member pm_email) [],
           photoUrl = opt_or (Option.bind member pm_profileImageUrl) [],
           profileUrl = [] \<rparr>)"

section \<open>Collaborators\<close>

text \<open>
  The member repository, the social profile repository, the nickname and member id
  helpers of registration, the rate limiter and the captcha check are collaborators whose
  code is not among the sources. They are arguments: functions over a state \<open>'db\<close> of
  their own. A read returns what it finds; a write returns the new state, or
  \<open>None\<close> when it throws.
\<close>

record Member =
  mb_id :: string
  mb_nick :: string
  mb_name :: string
  mb_level :: "int option"
  mb_email :: string

record SocialProfileRow =
  sp_provider :: string
  sp_identifier :: string
  sp_mb_id :: string

record NewMember =
  nm_mb_id :: string
  nm_mb_nick :: string
  nm_mb_email :: string
  nm_mb_name :: string
  nm_mb_ip :: string

record 'db repo =
  getMemberById :: "'db \<Rightarrow> string \<Rightarrow> Member option"
  findMemberByEmail :: "'db \<Rightarrow> string \<Rightarrow> Member option"
  isMemberActive :: "Member \<Rightarrow> bool"
  updateLoginTimestamp :: "'db \<Rightarrow> string \<Rightarrow> string \<Rightarrow> 'db option"
  findSocialProfile :: "'db \<Rightarrow> string \<Rightarrow> string \<Rightarrow> SocialProfileRow option"
  upsertSocialProfile :: "'db \<Rightarrow> string \<Rightarrow> string \<Rightarrow> OAuthUserProfile \<Rightarrow> 'db option"
  validateNickname :: "'db \<Rightarrow> string \<Rightarrow> bool \<times> string"
  generateSocialMbId :: "string \<Rightarrow> string \<Rightarrow> string"
  isMbIdTaken :: "'db \<Rightarrow> string \<Rightarrow> bool"
  createMember :: "'db \<Rightarrow> NewMember \<Rightarrow> 'db option"
  checkRateLimit :: "'db \<Rightarrow> string \<Rightarrow> string \<Rightarrow> nat \<Rightarrow> int \<Rightarrow> time \<Rightarrow> bool \<times> int"
  recordAttempt :: "'db \<Rightarrow> string \<Rightarrow> string \<Rightarrow> time \<Rightarrow> 'db"
  verifyTurnstile :: "string \<Rightarrow> string \<Rightarrow> bool"

text \<open>
  The identity providers, over the network. \<open>getProvider_ok p origin\<close> is false when
  \<open>getProvider\<close> throws (no configuration); \<open>exchangeCode p origin code verifier\<close> is
  the token response, \<open>None\<close> when the exchange throws; \<open>fetch*\<close> is the payload of the
  profile endpoint for an access token, \<open>None\<close> when the request throws;
  \<open>decodeIdToken\<close> is the payload of an identity token, \<open>None\<close> when decoding throws.
\<close>

record OAuthTokenResponse =
  access_token :: string
  id_token :: "string option"

record oauth_net =
  getProvider_ok :: "SocialProvider \<Rightarrow> string \<Rightarrow> bool"
  exchangeCode :: "SocialProvider \<Rightarrow> string \<Rightarrow> string \<Rightarrow> string option
                   \<Rightarrow> OAuthTokenResponse option"
  fetchNaver :: "string \<Rightarrow> NaverProfileResponse option"
  fetchKakao :: "string \<Rightarrow> KakaoProfileResponse option"
  fetchGoogle :: "string \<Rightarrow> GoogleProfileResponse option"
  fetchFacebook :: "string \<Rightarrow> FacebookProfileResponse option"
  fetchTwitter :: "string \<Rightarrow> TwitterProfileResponse option"
  fetchPayco :: "string \<Rightarrow> PaycoProfileResponse option"
  decodeIdToken :: "string \<Rightarrow> AppleIdTokenPayload option"

text \<open>
  Modelled from the spec: \<open>BaseOAuthProvider.getUserProfile\<close> (base-provider.ts is not
  among the sources), which the adapters of Naver, Kakao, Google, Facebook and Twitter
  inherit: it fetches the profile with the access token and applies the adapter's
  \<open>parseUserProfile\<close>. The branches of Apple and Payco follow their own
  \<open>getUserProfile\<close> in the source: Apple's needs the identity token and decodes it,
  Payco's fetches and parses. \<open>None\<close> when it throws.
\<close>

definition getUserProfile ::
  "oauth_net \<Rightarrow> SocialProvider \<Rightarrow> string \<Rightarrow> string option \<Rightarrow> OAuthUserProfile option" where
  "getUserProfile N p accessToken idToken =
     (case p of
        Naver \<Rightarrow> map_option NaverProvider_parseUserProfile (fetchNaver N accessToken)
      | Kakao \<Rightarrow> map_option KakaoProvider_parseUserProfile (fetchKakao N accessToken)
      | Google \<Rightarrow> map_option GoogleProvider_parseUserProfile (fetchGoogle N accessToken)
      | Facebook \<Rightarrow> map_option FacebookProvider_parseUserProfile (fetchFacebook N accessToken)
      | Apple \<Rightarrow>
          (if \<not> truthy idToken then None
           else map_option AppleProvider_parseUserProfile (decodeIdToken N (the idToken)))
      | Twitter \<Rightarrow> map_option TwitterProvider_parseUserProfile (fetchTwitter N accessToken)
      | Payco \<Rightarrow> map_option PaycoProvider_parseUserProfile (fetchPayco N accessToken))"

text \<open>The staged profile of a pending registration (cookie \<open>pending_social_register\<close>).\<close>

record PendingProfile =
  pp_provider :: string
  pp_identifier :: string
  pp_email :: string
  pp_displayName :: string
  pp_photoUrl :: string
  pp_profileUrl :: string

text \<open>
  \<open>JSON.stringify\<close> and \<open>JSON.parse\<close> at the types the source uses them at (\<open>None\<close>:
  parsing throws), and the serialisation of \<open>URLSearchParams\<close>.
\<close>

record json_codec =
  stringify_state :: "OAuthStateData \<Rightarrow> string"
  parse_state :: "string \<Rightarrow> OAuthStateData option"
  stringify_pending :: "PendingProfile \<Rightarrow> string"
  parse_pending :: "string \<Rightarrow> PendingProfile option"
  URLSearchParams_toString :: "(string \<times> string) list \<Rightarrow> string"

section \<open>Requests\<close>

text \<open>
  What one request reads from outside: the two clocks and the output of the random
  generator (session id, CSRF token, family id, the four random bytes of a member id
  suffix in hexadecimal).
\<close>

record ambient =
  clock_now :: time
  clock_db :: time
  rand_session_id :: string
  rand_csrf_token :: string
  rand_family_id :: string
  rand_suffix :: string

text \<open>The calls a handler makes to collaborators and providers, in order.\<close>

datatype call =
    ExchangeCode SocialProvider string "string option"
  | GetUserProfile SocialProvider string "string option"
  | FindSocialProfile string string
  | FindMemberByEmail string
  | GetMemberById string
  | UpsertSocialProfile string string OAuthUserProfile
  | UpdateLoginTimestamp string string
  | CreateSession string
  | GenerateRefreshToken string
  | ValidateNickname string
  | IsMbIdTaken string
  | CreateMember NewMember

text \<open>
  The state a handler works on: the cookie jar of the browser, the two tables, the state
  of the collaborators, and the calls made so far.
\<close>

record 'db world =
  w_cookies :: cookies
  w_sessions :: session_table
  w_tokens :: token_table
  w_db :: "'db"
  w_calls :: "call list"

definition called :: "call \<Rightarrow> 'db world \<Rightarrow> 'db world" where
  "called c w = w\<lparr> w_calls := w_calls w @ [c] \<rparr>"

definition set_cookie :: "string \<Rightarrow> string \<Rightarrow> 'db world \<Rightarrow> 'db world" where
  "set_cookie name v w = w\<lparr> w_cookies := (w_cookies w)(name \<mapsto> v) \<rparr>"

definition delete_cookie :: "string \<Rightarrow> 'db world \<Rightarrow> 'db world" where
  "delete_cookie name w = w\<lparr> w_cookies := (w_cookies w)(name := None) \<rparr>"

datatype reg_error =
    TooManyRequests int
  | CaptchaFailed
  | RegistrationSessionExpired
  | BadPendingData
  | TermsNotAgreed
  | NicknameRejected string
  | LoginAfterRegisterFailed
  | RegisterFailed

text \<open>
  What a handler answers: a redirect (status, location), or the \<open>fail\<close> of a form action
  (status, the error, the nickname echoed back).
\<close>

datatype response =
    Redirect nat string
  | Fail nat reg_error string

section \<open>OAuth callback (routes/auth/callback/[provider])\<close>

text \<open>
  The \<open>try\<close> block of \<open>handleCallback\<close>, from \<open>getProvider\<close> to the final redirect.
  \<open>Inr\<close> is a redirect thrown inside the block (the \<open>catch\<close> rethrows it), \<open>Inl\<close> is any
  other exception, with the state reached when it was thrown.
\<close>

definition callback_try ::
  "json_codec \<Rightarrow> oauth_net \<Rightarrow> 'db repo \<Rightarrow> (string \<Rightarrow> string) \<Rightarrow> ambient \<Rightarrow> 'db world \<Rightarrow>
   SocialProvider \<Rightarrow> OAuthStateData \<Rightarrow> string \<Rightarrow> string \<Rightarrow> string \<Rightarrow>
   'db world + response \<times> 'db world" where
  "callback_try C N R hashSessionId A w providerName stateData code clientIp origin =
    (if \<not> getProvider_ok N providerName origin then Inl w
     else
      let codeVerifier =
            (if providerName = Twitter \<and> truthy (w_cookies w ''oauth_pkce'')
             then w_cookies w ''oauth_pkce'' else None);
          w1 = (if providerName = Twitter then delete_cookie ''oauth_pkce'' w else w);
          w2 = called (ExchangeCode providerName code codeVerifier) w1
      in (case exchangeCode N providerName origin code codeVerifier of
            None \<Rightarrow> Inl w2
          | Some tokenResponse \<Rightarrow>
      let idToken = (if providerName = Apple then id_token tokenResponse else None);
          w3 = called (GetUserProfile providerName (access_token tokenResponse) idToken) w2
      in (case getUserProfile N providerName (access_token tokenResponse) idToken of
            None \<Rightarrow> Inl w3
          | Some profile \<Rightarrow>
      let w4 = called (FindSocialProfile (provider_name providerName)
                         (profile_identifier profile)) w3;
          existingProfile = findSocialProfile R (w_db w4) (provider_name providerName)
                              (profile_identifier profile);
          linked = (case existingProfile of None \<Rightarrow> False | Some row \<Rightarrow> sp_mb_id row \<noteq> []);
          byEmail = (\<not> linked \<and> email profile \<noteq> []);
          w5 = (if byEmail then called (FindMemberByEmail (email profile)) w4 else w4);
          resolved =
            (if linked then map_option sp_mb_id existingProfile
             else if byEmail
             then map_option mb_id (findMemberByEmail R (w_db w5) (email profile))
             else None)
      in if \<not> truthy resolved
         then
           let w6 = set_cookie ''pending_social_register''
                      (stringify_pending C
                         \<lparr> pp_provider = provider_name providerName,
                           pp_identifier = profile_identifier profile,
                           pp_email = email profile,
                           pp_displayName = displayName profile,
                           pp_photoUrl = photoUrl profile,
                           pp_profileUrl = profileUrl profile \<rparr>) w5;
               params = [(''provider'', provider_name providerName)]
                        @ (if email profile \<noteq> [] then [(''email'', email profile)] else [])
                        @ (if redirect stateData \<noteq> []
                           then [(''redirect'', redirect stateData)] else [])
           in Inr (Redirect 302 (''/register?'' @ URLSearchParams_toString C params), w6)
         else
      let memberId = the resolved;
          w6 = called (GetMemberById memberId) w5
      in (case getMemberById R (w_db w6) memberId of
            None \<Rightarrow> Inr (Redirect 302 ''/login?error=account_inactive'', w6)
          | Some member \<Rightarrow>
      if \<not> isMemberActive R member
      then Inr (Redirect 302 ''/login?error=account_inactive'', w6)
      else
      let w7 = called (UpsertSocialProfile memberId (provider_name providerName) profile) w6
      in (case upsertSocialProfile R (w_db w7) memberId (provider_name providerName) profile of
            None \<Rightarrow> Inl w7
          | Some db1 \<Rightarrow>
      let w8 = called (UpdateLoginTimestamp memberId clientIp) (w7\<lparr> w_db := db1 \<rparr>)
      in (case updateLoginTimestamp R (w_db w8) memberId clientIp of
            None \<Rightarrow> Inl w8
          | Some db2 \<Rightarrow>
      let w9 = called (CreateSession (mb_id member)) (w8\<lparr> w_db := db2 \<rparr>)
      in (case createSession hashSessionId (w_sessions w9) (clock_now A) (clock_db A)
                 (rand_session_id A) (rand_csrf_token A) (mb_id member)
                 (Some clientIp) (Some []) of
            Inl err \<Rightarrow> Inl w9
          | Inr ((sid, csrf, expires), sess) \<Rightarrow>
              Inr (Redirect 302 (js_or (redirect stateData) ''/''),
                   set_cookie CSRF_COOKIE_NAME csrf
                     (set_cookie SESSION_COOKIE_NAME sid
                        (w9\<lparr> w_sessions := sess \<rparr>))))))))))"

text \<open>
  \<open>handleCallback\<close>: the provider of the callback path, the state check, the provider
  check, then the \<open>try\<close> block; an exception of the block becomes the redirect
  \<open>oauth_error\<close>.
\<close>

definition handleCallback ::
  "json_codec \<Rightarrow> oauth_net \<Rightarrow> 'db repo \<Rightarrow> (string \<Rightarrow> string) \<Rightarrow> ambient \<Rightarrow> 'db world \<Rightarrow>
   string \<Rightarrow> string \<Rightarrow> string \<Rightarrow> string \<Rightarrow> string \<Rightarrow> response \<times> 'db world" where
  "handleCallback C N R hashSessionId A w providerSlug code stateParam clientIp origin =
    (case normalizeProviderName providerSlug of
       None \<Rightarrow> (Redirect 302 ''/login?error=invalid_provider'', w)
     | Some providerName \<Rightarrow>
         (case validateOAuthState (parse_state C) (w_cookies w) (clock_now A) stateParam of
            (None, cks) \<Rightarrow> (Redirect 302 ''/login?error=invalid_state'', w\<lparr> w_cookies := cks \<rparr>)
          | (Some stateData, cks) \<Rightarrow>
              if sd_provider stateData \<noteq> providerName
              then (Redirect 302 ''/login?error=provider_mismatch'', w\<lparr> w_cookies := cks \<rparr>)
              else (case callback_try C N R hashSessionId A (w\<lparr> w_cookies := cks \<rparr>)
                           providerName stateData code clientIp origin of
                      Inl w' \<Rightarrow> (Redirect 302 ''/login?error=oauth_error'', w')
                    | Inr answer \<Rightarrow> answer)))"

section \<open>Social registration (routes/register)\<close>

text \<open>
  \<open>String.prototype.trim\<close> on the characters of the model: tab, line feed, vertical
  tab, form feed, carriage return, space and no-break space are stripped at both ends.
\<close>

definition is_space :: "char \<Rightarrow> bool" where
  "is_space c = (c \<in> set [CHR 0x09, CHR 0x0A, CHR 0x0B, CHR 0x0C, CHR 0x0D, CHR 0x20, CHR 0xA0])"

definition trim :: "string \<Rightarrow> string" where
  "trim s = rev (dropWhile is_space (rev (dropWhile is_space s)))"

text \<open>The fields of the submitted form (\<open>None\<close>: the field is absent).\<close>

record RegisterForm =
  form_nickname :: "string option"
  form_agree_terms :: "string option"
  form_agree_privacy :: "string option"
  form_redirect :: "string option"
  form_turnstile :: "string option"

text \<open>
  The \<open>try\<close> block of the action, from \<open>createMember\<close> to the final redirect; \<open>Inl\<close> is
  an exception caught by the \<open>catch\<close> branch, with the state reached when it was thrown.
\<close>

definition register_try ::
  "jose \<Rightarrow> 'db repo \<Rightarrow> (string \<Rightarrow> string) \<Rightarrow> ambient \<Rightarrow> 'db world \<Rightarrow>
   PendingProfile \<Rightarrow> string \<Rightarrow> string \<Rightarrow> string \<Rightarrow> string \<Rightarrow>
   'db world + response \<times> 'db world" where
  "register_try J R hashSessionId A w socialProfile nick memberId clientIp redirectUrl =
    (let newMember = \<lparr> nm_mb_id = memberId, nm_mb_nick = nick,
                        nm_mb_email = pp_email socialProfile, nm_mb_name = nick,
                        nm_mb_ip = clientIp \<rparr>;
         w1 = called (CreateMember newMember) w
     in (case createMember R (w_db w1) newMember of
           None \<Rightarrow> Inl w1
         | Some db1 \<Rightarrow>
     let oauthProfile = \<lparr> provider = pp_provider socialProfile,
                           profile_identifier = pp_identifier socialProfile,
                           displayName = pp_displayName socialProfile,
                           email = pp_email socialProfile,
                           photoUrl = pp_photoUrl socialProfile,
                           profileUrl = pp_profileUrl socialProfile \<rparr>;
         w2 = called (UpsertSocialProfile memberId (pp_provider socialProfile) oauthProfile)
                (w1\<lparr> w_db := db1 \<rparr>)
     in (case upsertSocialProfile R (w_db w2) memberId (pp_provider socialProfile)
                oauthProfile of
           None \<Rightarrow> Inl w2
         | Some db2 \<Rightarrow>
     let w3 = called (UpdateLoginTimestamp memberId clientIp) (w2\<lparr> w_db := db2 \<rparr>)
     in (case updateLoginTimestamp R (w_db w3) memberId clientIp of
           None \<Rightarrow> Inl w3
         | Some db3 \<Rightarrow>
     let w4 = called (GetMemberById memberId) (w3\<lparr> w_db := db3 \<rparr>)
     in (case getMemberById R (w_db w4) memberId of
           None \<Rightarrow> Inr (Fail 500 LoginAfterRegisterFailed nick, w4)
         | Some member \<Rightarrow>
     let w5 = called (CreateSession (mb_id member)) w4
     in (case createSession hashSessionId (w_sessions w5) (clock_now A) (clock_db A)
                (rand_session_id A) (rand_csrf_token A) (mb_id member)
                (Some clientIp) None of
           Inl err \<Rightarrow> Inl w5
         | Inr ((sid, csrf, expires), sess) \<Rightarrow>
     let w6 = set_cookie CSRF_COOKIE_NAME csrf
                (set_cookie SESSION_COOKIE_NAME sid (w5\<lparr> w_sessions := sess \<rparr>));
         w7 = called (GenerateRefreshToken (mb_id member)) w6;
         issued = generateRefreshToken J (w_tokens w7) (clock_now A) (clock_db A)
                    (rand_family_id A) (mb_id member) (Some clientIp) None None;
         w8 = set_cookie ''refresh_token'' (fst (fst issued)) (w7\<lparr> w_tokens := snd issued \<rparr>);
         w9 = delete_cookie ''pending_social_register'' w8
     in Inr (Redirect 302 redirectUrl, w9)))))))"

text \<open>The default form action of the registration page (\<open>actions.default\<close>).\<close>

definition register_action ::
  "json_codec \<Rightarrow> jose \<Rightarrow> 'db repo \<Rightarrow> (string \<Rightarrow> string) \<Rightarrow> ambient \<Rightarrow> 'db world \<Rightarrow>
   RegisterForm \<Rightarrow> string \<Rightarrow> response \<times> 'db world" where
  "register_action C J R hashSessionId A w form clientIp =
    (let nick = (case form_nickname form of None \<Rightarrow> [] | Some s \<Rightarrow> js_or (trim s) []);
         agreeTerms = (form_agree_terms form = Some ''on'');
         agreePrivacy = (form_agree_privacy form = Some ''on'');
         redirectUrl = opt_or (form_redirect form) ''/'';
         rateCheck = checkRateLimit R (w_db w) clientIp ''register'' 5 (60 * 60 * 1000)
                       (clock_now A)
     in if \<not> fst rateCheck then (Fail 429 (TooManyRequests (snd rateCheck)) nick, w)
        else
     let w1 = w\<lparr> w_db := recordAttempt R (w_db w) clientIp ''register'' (clock_now A) \<rparr>;
         turnstileToken = opt_or (form_turnstile form) []
     in if \<not> verifyTurnstile R turnstileToken clientIp
        then (Fail 400 CaptchaFailed nick, w1)
        else if \<not> truthy (w_cookies w1 ''pending_social_register'')
        then (Fail 400 RegistrationSessionExpired nick, w1)
        else (case parse_pending C (the (w_cookies w1 ''pending_social_register'')) of
                None \<Rightarrow> (Fail 400 BadPendingData nick, w1)
              | Some socialProfile \<Rightarrow>
     if \<not> agreeTerms \<or> \<not> agreePrivacy then (Fail 400 TermsNotAgreed nick, w1)
     else
     let w2 = called (ValidateNickname nick) w1;
         nicknameResult = validateNickname R (w_db w2) nick
     in if \<not> fst nicknameResult
        then (Fail 400 (NicknameRejected (snd nicknameResult)) nick, w2)
        else
     let generated = generateSocialMbId R (pp_provider socialProfile)
                       (pp_identifier socialProfile);
         w3 = called (IsMbIdTaken generated) w2;
         memberId = (if isMbIdTaken R (w_db w3) generated
                     then generated @ ''_'' @ rand_suffix A else generated)
     in (case register_try J R hashSessionId A w3 socialProfile nick memberId clientIp
                redirectUrl of
           Inl w' \<Rightarrow> (Fail 500 RegisterFailed nick, w')
         | Inr answer \<Rightarrow> answer)))"

section \<open>Authentication from cookies (auth/index.ts)\<close>

record AuthUser =
  au_mb_id :: "string option"
  au_mb_name :: string
  au_mb_level :: int
  au_mb_email :: string

text \<open>The claims of a legacy token under their historical names.\<close>

record LegacyClaims =
  lc_mb_id :: "string option"
  lc_sub :: "string option"
  lc_user_id :: "string option"
  lc_mb_name :: "string option"
  lc_mb_nick :: "string option"
  lc_nickname :: "string option"
  lc_mb_level :: "int option"
  lc_level :: "int option"
  lc_mb_email :: "string option"
  lc_email :: "string option"

text \<open>
  \<open>verifyTokenLax\<close>; \<open>jwtVerifyLax tok now\<close> is the library's check against the legacy
  secret, without issuer.
\<close>

definition verifyTokenLax ::
  "(string \<Rightarrow> time \<Rightarrow> LegacyClaims option) \<Rightarrow> time \<Rightarrow> string \<Rightarrow> JwtPayload option" where
  "verifyTokenLax jwtVerifyLax now token =
     (case jwtVerifyLax token now of
        None \<Rightarrow> None
      | Some payload \<Rightarrow>
          let s = opt_or (lc_mb_id payload) (opt_or (lc_sub payload)
                    (opt_or (lc_user_id payload) []))
          in if s = [] then None
             else Some \<lparr> sub = Some s,
                         nickname = opt_or (lc_mb_name payload) (opt_or (lc_mb_nick payload)
                                      (opt_or (lc_nickname payload) [])),
                         level = (case lc_mb_level payload of
                                    Some n \<Rightarrow> if n \<noteq> 0 then n
                                              else (case lc_level payload of
                                                      None \<Rightarrow> 0 | Some m \<Rightarrow> m)
                                  | None \<Rightarrow> (case lc_level payload of None \<Rightarrow> 0 | Some m \<Rightarrow> m)),
                         jwt_email = opt_or (lc_mb_email payload)
                                       (opt_or (lc_email payload) []) \<rparr>)"

text \<open>The user \<open>getAuthUser\<close> makes of a member row, and of a token payload.\<close>

definition user_of_member :: "Member \<Rightarrow> AuthUser" where
  "user_of_member member =
     \<lparr> au_mb_id = Some (mb_id member),
       au_mb_name = js_or (mb_nick member) (mb_name member),
       au_mb_level = (case mb_level member of None \<Rightarrow> 0 | Some n \<Rightarrow> n),
       au_mb_email = js_or (mb_email member) [] \<rparr>"

definition user_of_payload :: "JwtPayload \<Rightarrow> AuthUser" where
  "user_of_payload payload =
     \<lparr> au_mb_id = sub payload, au_mb_name = nickname payload,
       au_mb_level = level payload, au_mb_email = jwt_email payload \<rparr>"

text \<open>
  The four sources of \<open>getAuthUser\<close>, in the order of the source. The first reads the
  session store and may write it; the others read cookies, the signing library and the
  member repository. None of them takes the refresh token table.
\<close>

definition auth_by_session ::
  "'db repo \<Rightarrow> (string \<Rightarrow> string) \<Rightarrow> 'db \<Rightarrow> time \<Rightarrow> time \<Rightarrow> cookies \<Rightarrow> session_table \<Rightarrow>
   AuthUser option \<times> session_table" where
  "auth_by_session R hashSessionId db now dbNow cks sess =
     (if \<not> truthy (cks SESSION_COOKIE_NAME) then (None, sess)
      else (case getSession hashSessionId sess now dbNow (the (cks SESSION_COOKIE_NAME)) of
              (None, sess') \<Rightarrow> (None, sess')
            | (Some session, sess') \<Rightarrow>
                (map_option user_of_member (getMemberById R db (mbId session)), sess')))"

definition auth_by_access_token :: "jose \<Rightarrow> time \<Rightarrow> cookies \<Rightarrow> AuthUser option" where
  "auth_by_access_token J now cks =
     (if \<not> truthy (cks ''access_token'') then None
      else map_option user_of_payload (verifyToken J now (the (cks ''access_token''))))"

definition auth_by_refresh_token ::
  "jose \<Rightarrow> 'db repo \<Rightarrow> 'db \<Rightarrow> time \<Rightarrow> cookies \<Rightarrow> AuthUser option" where
  "auth_by_refresh_token J R db now cks =
     (if \<not> truthy (cks ''refresh_token'') then None
      else (case verifyToken J now (the (cks ''refresh_token'')) of
              None \<Rightarrow> None
            | Some payload \<Rightarrow>
                if \<not> truthy (sub payload) then None
                else map_option user_of_member (getMemberById R db (the (sub payload)))))"

definition auth_by_legacy_jwt ::
  "(string \<Rightarrow> time \<Rightarrow> LegacyClaims option) \<Rightarrow> time \<Rightarrow> cookies \<Rightarrow> AuthUser option" where
  "auth_by_legacy_jwt jwtVerifyLax now cks =
     (if \<not> truthy (cks ''damoang_jwt'') then None
      else (case verifyTokenLax jwtVerifyLax now (the (cks ''damoang_jwt'')) of
              None \<Rightarrow> None
            | Some payload \<Rightarrow>
                if \<not> truthy (sub payload) then None else Some (user_of_payload payload)))"

definition getAuthUser ::
  "jose \<Rightarrow> (string \<Rightarrow> time \<Rightarrow> LegacyClaims option) \<Rightarrow> 'db repo \<Rightarrow> (string \<Rightarrow> string) \<Rightarrow>
   time \<Rightarrow> time \<Rightarrow> 'db world \<Rightarrow> AuthUser option \<times> 'db world" where
  "getAuthUser J jwtVerifyLax R hashSessionId now dbNow w =
     (case auth_by_session R hashSessionId (w_db w) now dbNow (w_cookies w) (w_sessions w) of
        (Some user, sess) \<Rightarrow> (Some user, w\<lparr> w_sessions := sess \<rparr>)
      | (None, sess) \<Rightarrow>
          (let w1 = w\<lparr> w_sessions := sess \<rparr>
           in case auth_by_access_token J now (w_cookies w) of
                Some user \<Rightarrow> (Some user, w1)
              | None \<Rightarrow>
                  (case auth_by_refresh_token J R (w_db w) now (w_cookies w) of
                     Some user \<Rightarrow> (Some user, w1)
                   | None \<Rightarrow> (auth_by_legacy_jwt jwtVerifyLax now (w_cookies w), w1))))"

section \<open>Example data\<close>

text \<open>Concrete inputs on which the operations are run below.\<close>

definition example_digest :: "string \<Rightarrow> string" where
  "example_digest s = ''#'' @ s"

definition example_session :: SessionRow where
  "example_session =
     \<lparr> s_mb_id = ''u1'', csrf_token = ''c1'', s_ip = None, s_user_agent = None,
       s_created_at = 0, last_active_at = 1000, s_expires_at = 2592000000 \<rparr>"



definition example_claims :: JwtClaims where
  "example_claims =
     \<lparr> claim_sub = Some ''u1'', claim_nickname = None, claim_level = None,
       claim_email = None \<rparr>"

definition example_jose :: jose where
  "example_jose =
     \<lparr> jwtVerify = (\<lambda>tok now. if tok \<in> set [''t0'', ''t1'', ''t2'']
                                then Some example_claims else None),
       signRefresh = (\<lambda>m now. if now = 10 then ''t0'' else if now = 20 then ''t1''
                               else ''t2''),
       hashToken = example_digest \<rparr>"

definition example_issued :: "string \<Rightarrow> time \<Rightarrow> time \<Rightarrow> time option \<Rightarrow> RefreshTokenRow" where
  "example_issued t now dbNow rv =
     \<lparr> token_hash = ''#'' @ t, rt_mb_id = ''u1'', family_id = ''fam0'', rt_ip = None,
       rt_user_agent = None, rt_created_at = dbNow, rt_expires_at = now + 604800000,
       revoked_at = rv \<rparr>"

definition example_state :: OAuthStateData where
  "example_state =
     \<lparr> state = ''s0'', sd_provider = Naver, redirect = ''/free'', timestamp = 5000 \<rparr>"

definition example_stringify_state :: "OAuthStateData \<Rightarrow> string" where
  "example_stringify_state d = ''state='' @ state d"

definition example_parse_state :: "string \<Rightarrow> OAuthStateData option" where
  "example_parse_state raw = (if raw = ''state=s0'' then Some example_state else None)"

type_synonym example_db = "Member list \<times> SocialProfileRow list"

definition example_member :: Member where
  "example_member =
     \<lparr> mb_id = ''u1'', mb_nick = ''bob'', mb_name = ''Bob'', mb_level = Some 2,
       mb_email = ''bob@example.org'' \<rparr>"

definition example_link :: SocialProfileRow where
  "example_link = \<lparr> sp_provider = ''naver'', sp_identifier = ''n1'', sp_mb_id = ''u1'' \<rparr>"

definition example_pending :: PendingProfile where
  "example_pending =
     \<lparr> pp_provider = ''naver'', pp_identifier = ''n2'', pp_email = ''new@example.org'',
       pp_displayName = [], pp_photoUrl = [], pp_profileUrl = [] \<rparr>"

text \<open>
  A repository in memory: the members and the social profile links as lists. Nicknames
  are validated by \<open>check\<close>.
\<close>

definition example_repo :: "(example_db \<Rightarrow> string \<Rightarrow> bool \<times> string) \<Rightarrow> example_db repo" where
  "example_repo check =
     \<lparr> getMemberById = (\<lambda>db i. find (\<lambda>m. mb_id m = i) (fst db)),
       findMemberByEmail = (\<lambda>db e. find (\<lambda>m. mb_email m = e) (fst db)),
       isMemberActive = (\<lambda>m. True),
       updateLoginTimestamp = (\<lambda>db i a. Some db),
       findSocialProfile =
         (\<lambda>db p i. find (\<lambda>r. sp_provider r = p \<and> sp_identifier r = i) (snd db)),
       upsertSocialProfile =
         (\<lambda>db i p pr.
            Some (fst db,
                  \<lparr> sp_provider = p, sp_identifier = profile_identifier pr, sp_mb_id = i \<rparr>
                  # filter (\<lambda>r. \<not> (sp_provider r = p
                                      \<and> sp_identifier r = profile_identifier pr)) (snd db))),
       validateNickname = check,
       generateSocialMbId = (\<lambda>p i. p @ ''_'' @ i),
       isMbIdTaken = (\<lambda>db i. find (\<lambda>m. mb_id m = i) (fst db) \<noteq> None),
       createMember =
         (\<lambda>db nm. if find (\<lambda>m. mb_id m = nm_mb_id nm) (fst db) \<noteq> None then None
                   else Some (fst db @ [\<lparr> mb_id = nm_mb_id nm, mb_nick = nm_mb_nick nm,
                                           mb_name = nm_mb_name nm, mb_level = Some 2,
                                           mb_email = nm_mb_email nm \<rparr>], snd db)),
       checkRateLimit = (\<lambda>db a b c d e. (True, 0)),
       recordAttempt = (\<lambda>db a b c. db),
       verifyTurnstile = (\<lambda>t a. True) \<rparr>"

definition nickname_nonempty :: "example_db \<Rightarrow> string \<Rightarrow> bool \<times> string" where
  "nickname_nonempty db nick = (nick \<noteq> [], ''empty'')"

definition nickname_unused :: "example_db \<Rightarrow> string \<Rightarrow> bool \<times> string" where
  "nickname_unused db nick =
     (if nick = [] then (False, ''empty'')
      else if find (\<lambda>m. mb_nick m = nick) (fst db) \<noteq> None then (False, ''taken'')
      else (True, []))"

definition example_net :: oauth_net where
  "example_net =
     \<lparr> getProvider_ok = (\<lambda>p origin. True),
       exchangeCode = (\<lambda>p origin code v. Some \<lparr> access_token = ''at'', id_token = None \<rparr>),
       fetchNaver = (\<lambda>t. Some \<lparr> nv_id = ''n1'', nv_nickname = None, nv_email = None,
                               nv_profile_image = None, nv_name = None \<rparr>),
       fetchKakao = (\<lambda>t. None),
       fetchGoogle = (\<lambda>t. None),
       fetchFacebook = (\<lambda>t. None),
       fetchTwitter = (\<lambda>t. None),
       fetchPayco = (\<lambda>t. None),
       decodeIdToken = (\<lambda>t. None) \<rparr>"

definition example_codec :: json_codec where
  "example_codec =
     \<lparr> stringify_state = example_stringify_state,
       parse_state = example_parse_state,
       stringify_pending = (\<lambda>p. ''pending='' @ pp_identifier p),
       parse_pending = (\<lambda>raw. if raw = ''pending=n2'' then Some example_pending else None),
       URLSearchParams_toString = (\<lambda>ps. concat (map (\<lambda>(k, v). k @ ''='' @ v @ ''&'') ps)) \<rparr>"

definition example_ambient :: ambient where
  "example_ambient =
     \<lparr> clock_now = 6000, clock_db = 6001, rand_session_id = ''sid1'',
       rand_csrf_token = ''csrf1'', rand_family_id = ''fam1'', rand_suffix = ''0a1b2c3d'' \<rparr>"

definition example_world :: "example_db world" where
  "example_world =
     \<lparr> w_cookies = [STATE_COOKIE_NAME \<mapsto> ''state=s0''], w_sessions = Map.empty,
       w_tokens = [], w_db = ([example_member], [example_link]), w_calls = [] \<rparr>"

definition example_rotated :: token_table where
  "example_rotated = [example_issued ''t0'' 10 11 (Some 21), example_issued ''t1'' 20 21 None]"

definition example_auth_world :: "example_db world" where
  "example_auth_world =
     \<lparr> w_cookies = [''refresh_token'' \<mapsto> ''t0''], w_sessions = Map.empty,
       w_tokens = example_rotated, w_db = ([example_member], []), w_calls = [] \<rparr>"

definition example_reg_world :: "example_db world" where
  "example_reg_world =
     \<lparr> w_cookies = [''pending_social_register'' \<mapsto> ''pending=n2''],
       w_sessions = Map.empty, w_tokens = [], w_db = ([example_member], []),
       w_calls = [] \<rparr>"

definition example_form :: "string \<Rightarrow> RegisterForm" where
  "example_form nick =
     \<lparr> form_nickname = Some nick, form_agree_terms = Some ''on'',
       form_agree_privacy = Some ''on'', form_redirect = None, form_turnstile = None \<rparr>"

definition example_squatter :: Member where
  "example_squatter =
     \<lparr> mb_id = ''naver_n2'', mb_nick = ''zed'', mb_name = ''Zed'', mb_level = Some 2,
       mb_email = ''zed@example.org'' \<rparr>"

text \<open>
  A signing library as the source uses it: the token is made of the subject and of the
  time of issue in whole seconds, so that two tokens signed for one member within one
  second are equal.
\<close>

definition seconds_jose :: jose where
  "seconds_jose =
     \<lparr> jwtVerify = (\<lambda>tok now. if take 3 tok = ''u1.'' then Some example_claims else None),
       signRefresh = (\<lambda>m now. m @ ''.'' @ String_of_number (now div 1000)),
       hashToken = example_digest \<rparr>"

definition seconds_row ::
  "string \<Rightarrow> string \<Rightarrow> time \<Rightarrow> time \<Rightarrow> time option \<Rightarrow> RefreshTokenRow" where
  "seconds_row t f now dbNow rv =
     \<lparr> token_hash = ''#'' @ t, rt_mb_id = ''u1'', family_id = f, rt_ip = None,
       rt_user_agent = None, rt_created_at = dbNow, rt_expires_at = now + 604800000,
       revoked_at = rv \<rparr>"

section \<open>Properties of the session store\<close>

text \<open>
  C4. For a session whose stored \<open>expires_at\<close> is earlier than the current time,
  \<open>getSession\<close> returns nothing and deletes the row; a later \<open>getSession\<close> of the same
  session id, at any time, returns nothing again and leaves the row absent.
\<close>

theorem getSession_expired:
  assumes "sess (hashSessionId sid) = Some row"
      and "s_expires_at row < now"
  shows "getSession hashSessionId sess now dbNow sid
           = (None, sess(hashSessionId sid := None))
       \<and> getSession hashSessionId
           (snd (getSession hashSessionId sess now dbNow sid)) now' dbNow' sid
           = (None, sess(hashSessionId sid := None))"
  using assms by (simp add: getSession_def Let_def)

theorem getSession_expired_witness:
  "getSession example_digest [''#s1'' \<mapsto> example_session] 2592000001 2592000001 ''s1''
      = (None, [''#s1'' \<mapsto> example_session](example_digest ''s1'' := None))
   \<and> getSession example_digest
        (snd (getSession example_digest [''#s1'' \<mapsto> example_session]
                2592000001 2592000001 ''s1''))
        5 5 ''s1''
      = (None, [''#s1'' \<mapsto> example_session](example_digest ''s1'' := None))"
proof -
  have h1: "[''#s1'' \<mapsto> example_session] (example_digest ''s1'') = Some example_session"
    by (simp add: example_digest_def)
  have h2: "s_expires_at example_session < 2592000001"
    by (simp add: example_session_def)
  show ?thesis
    by (rule getSession_expired [where hashSessionId = example_digest and sid = "''s1''"
        and sess = "[''#s1'' \<mapsto> example_session]" and row = example_session
        and now = 2592000001 and dbNow = 2592000001 and now' = 5 and dbNow' = 5, OF h1 h2])
qed

text \<open>
  C5. For an unexpired session, \<open>getSession\<close> returns the data of the row as read, with
  the session id as passed in, the CSRF token and the member id, and writes as follows:
  more than 15 days after the last activity it sets \<open>expires_at\<close> to now plus 30 days and
  \<open>last_active_at\<close> to the database's now; otherwise, more than 5 minutes after the last
  activity, it sets \<open>last_active_at\<close> only; otherwise it writes nothing.
\<close>

theorem getSession_sliding_window:
  assumes "sess (hashSessionId sid) = Some row"
      and "now \<le> s_expires_at row"
  shows "fst (getSession hashSessionId sess now dbNow sid)
           = Some \<lparr> sessionId = sid, mbId = s_mb_id row, csrfToken = csrf_token row,
                    ip = s_ip row, userAgent = s_user_agent row,
                    createdAt = s_created_at row, lastActiveAt = last_active_at row,
                    expiresAt = s_expires_at row \<rparr>
       \<and> snd (getSession hashSessionId sess now dbNow sid)
           = (if now - last_active_at row > 15 * 24 * 60 * 60 * 1000
              then sess(hashSessionId sid \<mapsto>
                     row\<lparr> last_active_at := dbNow,
                          s_expires_at := now + 30 * 24 * 60 * 60 * 1000 \<rparr>)
              else if now - last_active_at row > 5 * 60 * 1000
              then sess(hashSessionId sid \<mapsto> row\<lparr> last_active_at := dbNow \<rparr>)
              else sess)"
  using assms
  by (simp add: getSession_def Let_def SESSION_REFRESH_THRESHOLD_MS_def SESSION_MAX_AGE_MS_def)

theorem getSession_sliding_window_witness:
  "snd (getSession example_digest [''#s1'' \<mapsto> example_session] 1296001001 1296001007 ''s1'')
     = [''#s1'' \<mapsto> example_session\<lparr> last_active_at := 1296001007,
                                          s_expires_at := 3888001001 \<rparr>]
   \<and> snd (getSession example_digest [''#s1'' \<mapsto> example_session] 301001 301003 ''s1'')
     = [''#s1'' \<mapsto> example_session\<lparr> last_active_at := 301003 \<rparr>]
   \<and> snd (getSession example_digest [''#s1'' \<mapsto> example_session] 301000 301003 ''s1'')
     = [''#s1'' \<mapsto> example_session]
   \<and> fst (getSession example_digest [''#s1'' \<mapsto> example_session] 301000 301003 ''s1'')
     = Some \<lparr> sessionId = ''s1'', mbId = ''u1'', csrfToken = ''c1'', ip = None,
              userAgent = None, createdAt = 0, lastActiveAt = 1000,
              expiresAt = 2592000000 \<rparr>"
proof -
  have h1: "[''#s1'' \<mapsto> example_session] (example_digest ''s1'') = Some example_session"
    by (simp add: example_digest_def)
  have a: "1296001001 \<le> s_expires_at example_session"
    and b: "301001 \<le> s_expires_at example_session"
    and c: "301000 \<le> s_expires_at example_session"
    by (simp_all add: example_session_def)
  note w = getSession_sliding_window [where hashSessionId = example_digest and sid = "''s1''"
        and sess = "[''#s1'' \<mapsto> example_session]" and row = example_session, OF h1]
  have la: "last_active_at example_session = 1000"
    by (simp add: example_session_def)
  show ?thesis
    using w [OF a, of 1296001007] w [OF b, of 301003] w [OF c, of 301003]
    by (simp add: la example_digest_def) (simp add: example_session_def)
qed

section \<open>Properties of the refresh token store\<close>






section \<open>Properties of rotation\<close>

lemma revokeToken_length: "length (revokeToken toks d h) = length toks"
  by (simp add: revokeToken_def)

lemma revokeToken_hashes: "map token_hash (revokeToken toks d h) = map token_hash toks"
  by (induction toks) (simp_all add: revokeToken_def)

lemma revokeToken_families: "map family_id (revokeToken toks d h) = map family_id toks"
  by (induction toks) (simp_all add: revokeToken_def)

lemma revokeToken_all_revoked:
  assumes "r \<in> set (revokeToken toks d h)" and "token_hash r = h"
  shows "revoked_at r \<noteq> None"
proof -
  from assms(1) obtain x where
    r: "r = (if token_hash x = h \<and> revoked_at x = None
             then x\<lparr> revoked_at := Some d \<rparr> else x)"
    unfolding revokeToken_def set_map by blast
  show ?thesis
  proof (cases "token_hash x = h \<and> revoked_at x = None")
    case True
    then show ?thesis by (simp add: r)
  next
    case False
    with r have rx: "r = x" by simp
    with assms(2) False show ?thesis by simp
  qed
qed

lemma findValidToken_SomeD:
  assumes "findValidToken toks now dbNow h = (Some (m, f), toks1)"
  shows "toks1 = toks \<and> (\<exists>row \<in> set toks. token_hash row = h \<and> family_id row = f
           \<and> rt_mb_id row = m \<and> revoked_at row = None \<and> \<not> rt_expires_at row < now)"
proof (cases "find (\<lambda>r. token_hash r = h) toks")
  case None
  with assms show ?thesis by (simp add: findValidToken_def)
next
  case (Some row)
  then have mem: "row \<in> set toks" and hr: "token_hash row = h"
    by (auto simp: find_Some_iff)
  show ?thesis
  proof (cases "revoked_at row = None")
    case True
    show ?thesis
    proof (cases "rt_expires_at row < now")
      case True
      with assms Some \<open>revoked_at row = None\<close> show ?thesis
        by (simp add: findValidToken_def)
    next
      case False
      with assms Some \<open>revoked_at row = None\<close>
      have "toks1 = toks" "rt_mb_id row = m" "family_id row = f"
        by (simp_all add: findValidToken_def)
      with mem hr False \<open>revoked_at row = None\<close> show ?thesis by blast
    qed
  next
    case False
    with assms Some show ?thesis by (simp add: findValidToken_def)
  qed
qed

lemma rotate_success:
  assumes v: "verifyToken J now old = Some p" and s: "truthy (sub p)"
      and f: "findValidToken toks now dbNow (hashToken J old) = (Some (m, fam), toks1)"
  shows "rotateRefreshToken J toks now dbNow g old metaIp metaUa
           = (Some (signRefresh J m now, m),
              revokeToken toks dbNow (hashToken J old) @
                [\<lparr> token_hash = hashToken J (signRefresh J m now), rt_mb_id = m,
                   family_id = opt_or (Some fam) g, rt_ip = metaIp,
                   rt_user_agent = map_option (take 512) metaUa, rt_created_at = dbNow,
                   rt_expires_at = now + REFRESH_TOKEN_TTL_MS, revoked_at = None \<rparr>])"
proof -
  from findValidToken_SomeD [OF f] have "toks1 = toks" by simp
  with v s f show ?thesis
    by (simp add: rotateRefreshToken_def generateRefreshToken_def storeRefreshToken_def
          Let_def)
qed

lemma rotate_SomeD:
  assumes r: "rotateRefreshToken J toks now dbNow g old metaIp metaUa = (Some (tok', m), toks')"
  shows "\<exists>p fam. verifyToken J now old = Some p \<and> truthy (sub p)
           \<and> findValidToken toks now dbNow (hashToken J old) = (Some (m, fam), toks)"
proof (cases "verifyToken J now old")
  case None
  with r show ?thesis by (simp add: rotateRefreshToken_def)
next
  case (Some p)
  show ?thesis
  proof (cases "truthy (sub p)")
    case False
    with r Some show ?thesis by (simp add: rotateRefreshToken_def)
  next
    case True
    obtain res toks1 where fv: "findValidToken toks now dbNow (hashToken J old) = (res, toks1)"
      by (cases "findValidToken toks now dbNow (hashToken J old)")
    show ?thesis
    proof (cases res)
      case None
      with r Some True fv show ?thesis by (simp add: rotateRefreshToken_def Let_def)
    next
      case (Some mf)
      obtain m' fam where mf: "mf = (m', fam)" by (cases mf)
      from r \<open>verifyToken J now old = Some p\<close> True fv Some mf have "m' = m"
        by (simp add: rotateRefreshToken_def Let_def)
      with fv Some mf have fv': "findValidToken toks now dbNow (hashToken J old)
                                   = (Some (m, fam), toks1)" by simp
      from findValidToken_SomeD [OF fv'] have "toks1 = toks" by simp
      with fv' \<open>verifyToken J now old = Some p\<close> True show ?thesis by blast
    qed
  qed
qed

lemma revokeToken_mem:
  assumes "r \<in> set (revokeToken toks d h)"
  shows "\<exists>x \<in> set toks. token_hash r = token_hash x \<and> family_id r = family_id x"
proof -
  from assms obtain x where x: "x \<in> set toks"
    and r: "r = (if token_hash x = h \<and> revoked_at x = None
             then x\<lparr> revoked_at := Some d \<rparr> else x)"
    unfolding revokeToken_def set_map by blast
  have "token_hash r = token_hash x \<and> family_id r = family_id x"
    by (cases "token_hash x = h \<and> revoked_at x = None") (simp_all add: r)
  with x show ?thesis by blast
qed

lemma map_take_nth:
  assumes eq: "map g (take n xs) = map g ys" and i: "i < n" and n: "n \<le> length xs"
  shows "g (xs ! i) = g (ys ! i)"
proof -
  from eq have "length (map g (take n xs)) = length (map g ys)" by simp
  with n have len: "length ys = n" by simp
  from eq have "map g (take n xs) ! i = map g ys ! i" by simp
  with i n len show ?thesis by simp
qed

lemma rotate_chain_inv:
  assumes "rotate_chain J toks tok steps = Some (ts, final)"
      and "f \<noteq> []"
      and "\<forall>r \<in> set toks. token_hash r \<in> hashToken J ` set ts \<longrightarrow> family_id r = f"
  shows "length ts = length steps + 1 \<and> hd ts = tok
       \<and> length final = length toks + length steps
       \<and> map token_hash (take (length toks) final) = map token_hash toks
       \<and> map family_id (take (length toks) final) = map family_id toks
       \<and> (\<forall>i < length steps.
             token_hash (final ! (length toks + i)) = hashToken J (ts ! Suc i)
             \<and> family_id (final ! (length toks + i)) = f)"
  using assms
proof (induction steps arbitrary: toks tok ts final)
  case Nil
  then have "ts = [tok]" "final = toks" by simp_all
  then show ?case by simp
next
  case (Cons step steps)
  obtain now dbNow g metaIp metaUa where step: "step = (now, dbNow, g, metaIp, metaUa)"
    by (cases step)
  obtain res toks' where rot0:
    "rotateRefreshToken J toks now dbNow g tok metaIp metaUa = (res, toks')"
    by (cases "rotateRefreshToken J toks now dbNow g tok metaIp metaUa")
  from Cons.prems(1) step rot0 obtain tok' m where res: "res = Some (tok', m)"
    by (cases res) auto
  from Cons.prems(1) step rot0 res obtain ts' where
    ch: "rotate_chain J toks' tok' steps = Some (ts', final)" and ts: "ts = tok # ts'"
    by (cases "rotate_chain J toks' tok' steps") auto
  from rot0 res have rot:
    "rotateRefreshToken J toks now dbNow g tok metaIp metaUa = (Some (tok', m), toks')"
    by simp
  from rotate_SomeD [OF rot] obtain p fam where
    v: "verifyToken J now tok = Some p" and tr: "truthy (sub p)" and
    fv: "findValidToken toks now dbNow (hashToken J tok) = (Some (m, fam), toks)"
    by blast
  from findValidToken_SomeD [OF fv] obtain row where
    row: "row \<in> set toks" "token_hash row = hashToken J tok" "family_id row = fam"
    by blast
  have "tok \<in> set ts" by (simp add: ts)
  with row Cons.prems(3) have fam: "fam = f" by blast
  let ?new = "\<lparr> token_hash = hashToken J (signRefresh J m now), rt_mb_id = m,
                   family_id = opt_or (Some fam) g, rt_ip = metaIp,
                   rt_user_agent = map_option (take 512) metaUa, rt_created_at = dbNow,
                   rt_expires_at = now + REFRESH_TOKEN_TTL_MS, revoked_at = None \<rparr>"
  have "(Some (tok', m), toks')
          = (Some (signRefresh J m now, m),
             revokeToken toks dbNow (hashToken J tok) @ [?new])"
    unfolding rot [symmetric] by (rule rotate_success [OF v tr fv])
  then have tok': "tok' = signRefresh J m now"
    and toks': "toks' = revokeToken toks dbNow (hashToken J tok) @ [?new]"
    by simp_all
  have newfam: "family_id ?new = f"
    using fam Cons.prems(2) by (simp add: opt_or_def js_or_def)
  have newhash: "token_hash ?new = hashToken J tok'"
    by (simp add: tok')
  have len': "length toks' = Suc (length toks)"
    by (simp add: toks' revokeToken_length)
  have pre: "\<forall>r \<in> set toks'. token_hash r \<in> hashToken J ` set ts' \<longrightarrow> family_id r = f"
  proof (intro ballI impI)
    fix r assume r: "r \<in> set toks'" and h: "token_hash r \<in> hashToken J ` set ts'"
    from r toks' consider "r \<in> set (revokeToken toks dbNow (hashToken J tok))" | "r = ?new"
      by auto
    then show "family_id r = f"
    proof cases
      case 1
      from revokeToken_mem [OF 1] obtain x where
        x: "x \<in> set toks" "token_hash r = token_hash x" "family_id r = family_id x"
        by blast
      from h x(2) ts have "token_hash x \<in> hashToken J ` set ts" by auto
      with x(1) Cons.prems(3) have "family_id x = f" by blast
      with x(3) show ?thesis by simp
    next
      case 2
      with newfam show ?thesis by simp
    qed
  qed
  from Cons.IH [OF ch Cons.prems(2) pre]
  have ih1: "length ts' = length steps + 1" and ih2: "hd ts' = tok'"
    and ih3: "length final = length toks' + length steps"
    and ih4: "map token_hash (take (length toks') final) = map token_hash toks'"
    and ih5: "map family_id (take (length toks') final) = map family_id toks'"
    and ih6: "\<forall>i < length steps.
             token_hash (final ! (length toks' + i)) = hashToken J (ts' ! Suc i)
             \<and> family_id (final ! (length toks' + i)) = f"
    by simp_all
  have c1: "length ts = length (step # steps) + 1" by (simp add: ts ih1)
  have c2: "hd ts = tok" by (simp add: ts)
  have c3: "length final = length toks + length (step # steps)" by (simp add: ih3 len')
  have le: "length toks' \<le> length final" by (simp add: ih3)
  have tk: "take (length toks) final = take (length toks) (take (length toks') final)"
    by (simp add: len' min_def)
  have c4: "map token_hash (take (length toks) final) = map token_hash toks"
  proof -
    have "map token_hash (take (length toks) final)
            = take (length toks) (map token_hash (take (length toks') final))"
      by (subst tk) (simp only: take_map)
    also have "\<dots> = take (length toks) (map token_hash toks')" by (simp only: ih4)
    also have "\<dots> = map token_hash toks"
      by (simp add: toks' revokeToken_hashes revokeToken_length)
    finally show ?thesis .
  qed
  have c5: "map family_id (take (length toks) final) = map family_id toks"
  proof -
    have "map family_id (take (length toks) final)
            = take (length toks) (map family_id (take (length toks') final))"
      by (subst tk) (simp only: take_map)
    also have "\<dots> = take (length toks) (map family_id toks')" by (simp only: ih5)
    also have "\<dots> = map family_id toks"
      by (simp add: toks' revokeToken_families revokeToken_length)
    finally show ?thesis .
  qed
  have nth_new: "toks' ! length toks = ?new"
    by (simp add: toks' nth_append revokeToken_length)
  have ts'_ne: "ts' \<noteq> []" using ih1 by auto
  have hd1: "ts ! Suc 0 = tok'" using ih2 ts'_ne by (simp add: ts hd_conv_nth)
  have c6: "\<forall>i < length (step # steps).
             token_hash (final ! (length toks + i)) = hashToken J (ts ! Suc i)
             \<and> family_id (final ! (length toks + i)) = f"
  proof (intro allI impI)
    fix i assume i: "i < length (step # steps)"
    show "token_hash (final ! (length toks + i)) = hashToken J (ts ! Suc i)
             \<and> family_id (final ! (length toks + i)) = f"
    proof (cases i)
      case 0
      have lt: "length toks < length toks'" by (simp add: len')
      from map_take_nth [OF ih4 lt le]
      have "token_hash (final ! length toks) = token_hash (toks' ! length toks)" .
      moreover from map_take_nth [OF ih5 lt le]
      have "family_id (final ! length toks) = family_id (toks' ! length toks)" .
      ultimately show ?thesis
        using 0 nth_new newhash newfam hd1 by simp
    next
      case (Suc j)
      with i have j: "j < length steps" by simp
      from ih6 j have "token_hash (final ! (length toks' + j)) = hashToken J (ts' ! Suc j)
             \<and> family_id (final ! (length toks' + j)) = f" by blast
      then show ?thesis by (simp add: Suc len' ts)
    qed
  qed
  from c1 c2 c3 c4 c5 c6 show ?case by blast
qed

text \<open>
  What rotation keeps when the hashes involved are new to the table. One rotation of a
  token that passes signature verification and store validation revokes every row with
  the old token's hash and stores the new token under the family id that validation
  returned, when that id is not empty. From a newly issued token with family id \<open>f0\<close>,
  when no row of the table before has the hash of a token of the chain, \<open>N\<close> rotations
  that each return a token leave \<open>N + 1\<close> new rows, one per token, all with family id
  \<open>f0\<close>.
\<close>

lemma rotation_keeps_family_when_hashes_fresh:
  "(verifyToken J now old = Some p \<and> truthy (sub p)
      \<and> findValidToken toks now dbNow (hashToken J old) = (Some (m, fam), toks1)
      \<and> fam \<noteq> [] \<longrightarrow>
      rotateRefreshToken J toks now dbNow g old metaIp metaUa
        = (Some (signRefresh J m now, m),
           revokeToken toks dbNow (hashToken J old) @
             [\<lparr> token_hash = hashToken J (signRefresh J m now), rt_mb_id = m,
                family_id = fam, rt_ip = metaIp,
                rt_user_agent = map_option (take 512) metaUa, rt_created_at = dbNow,
                rt_expires_at = now + 7 * 24 * 60 * 60 * 1000, revoked_at = None \<rparr>])
      \<and> (\<forall>r \<in> set (revokeToken toks dbNow (hashToken J old)).
            token_hash r = hashToken J old \<longrightarrow> revoked_at r \<noteq> None))
   \<and> (f0 \<noteq> []
      \<and> generateRefreshToken J toks0 now0 dbNow0 f0 m0 ip0 ua0 None = ((t0, fam0), toks0')
      \<and> (\<forall>t \<in> set ts. hashToken J t \<notin> token_hash ` set toks0)
      \<and> rotate_chain J toks0' t0 steps = Some (ts, final) \<longrightarrow>
      fam0 = f0 \<and> length ts = length steps + 1
      \<and> length final = length toks0 + length steps + 1
      \<and> (\<forall>i < length ts.
            token_hash (final ! (length toks0 + i)) = hashToken J (ts ! i)
            \<and> family_id (final ! (length toks0 + i)) = f0))"
proof (rule conjI; rule impI)
  assume a: "verifyToken J now old = Some p \<and> truthy (sub p)
      \<and> findValidToken toks now dbNow (hashToken J old) = (Some (m, fam), toks1)
      \<and> fam \<noteq> []"
  then have v: "verifyToken J now old = Some p" and tr: "truthy (sub p)"
    and fv: "findValidToken toks now dbNow (hashToken J old) = (Some (m, fam), toks1)"
    and ne: "fam \<noteq> []"
    by simp_all
  have fam: "opt_or (Some fam) g = fam"
    using ne by (simp add: opt_or_def js_or_def)
  have one: "rotateRefreshToken J toks now dbNow g old metaIp metaUa
        = (Some (signRefresh J m now, m),
           revokeToken toks dbNow (hashToken J old) @
             [\<lparr> token_hash = hashToken J (signRefresh J m now), rt_mb_id = m,
                family_id = fam, rt_ip = metaIp,
                rt_user_agent = map_option (take 512) metaUa, rt_created_at = dbNow,
                rt_expires_at = now + 7 * 24 * 60 * 60 * 1000, revoked_at = None \<rparr>])"
    using rotate_success [OF v tr fv, of g metaIp metaUa]
    by (simp add: fam REFRESH_TOKEN_TTL_MS_def)
  have two: "\<forall>r \<in> set (revokeToken toks dbNow (hashToken J old)).
            token_hash r = hashToken J old \<longrightarrow> revoked_at r \<noteq> None"
    using revokeToken_all_revoked by blast
  from one two show "rotateRefreshToken J toks now dbNow g old metaIp metaUa
        = (Some (signRefresh J m now, m),
           revokeToken toks dbNow (hashToken J old) @
             [\<lparr> token_hash = hashToken J (signRefresh J m now), rt_mb_id = m,
                family_id = fam, rt_ip = metaIp,
                rt_user_agent = map_option (take 512) metaUa, rt_created_at = dbNow,
                rt_expires_at = now + 7 * 24 * 60 * 60 * 1000, revoked_at = None \<rparr>])
      \<and> (\<forall>r \<in> set (revokeToken toks dbNow (hashToken J old)).
            token_hash r = hashToken J old \<longrightarrow> revoked_at r \<noteq> None)"
    by (rule conjI)
next
  assume b: "f0 \<noteq> []
      \<and> generateRefreshToken J toks0 now0 dbNow0 f0 m0 ip0 ua0 None = ((t0, fam0), toks0')
      \<and> (\<forall>t \<in> set ts. hashToken J t \<notin> token_hash ` set toks0)
      \<and> rotate_chain J toks0' t0 steps = Some (ts, final)"
  then have ne: "f0 \<noteq> []"
    and gen: "generateRefreshToken J toks0 now0 dbNow0 f0 m0 ip0 ua0 None
                = ((t0, fam0), toks0')"
    and fresh: "\<forall>t \<in> set ts. hashToken J t \<notin> token_hash ` set toks0"
    and ch: "rotate_chain J toks0' t0 steps = Some (ts, final)"
    by simp_all
  let ?row0 = "\<lparr> token_hash = hashToken J t0, rt_mb_id = m0, family_id = f0, rt_ip = ip0,
                  rt_user_agent = map_option (take 512) ua0, rt_created_at = dbNow0,
                  rt_expires_at = now0 + REFRESH_TOKEN_TTL_MS, revoked_at = None \<rparr>"
  let ?row = "\<lparr> token_hash = hashToken J (signRefresh J m0 now0), rt_mb_id = m0,
                 family_id = f0, rt_ip = ip0,
                 rt_user_agent = map_option (take 512) ua0, rt_created_at = dbNow0,
                 rt_expires_at = now0 + REFRESH_TOKEN_TTL_MS, revoked_at = None \<rparr>"
  have "((t0, fam0), toks0') = ((signRefresh J m0 now0, f0), toks0 @ [?row])"
    unfolding gen [symmetric]
    by (simp add: generateRefreshToken_def storeRefreshToken_def Let_def opt_or_def)
  then have t0: "t0 = signRefresh J m0 now0" and fam0: "fam0 = f0"
    and toks0'r: "toks0' = toks0 @ [?row]"
    by simp_all
  have toks0': "toks0' = toks0 @ [?row0]"
    by (simp add: toks0'r t0)
  have len0: "length toks0' = Suc (length toks0)" by (simp add: toks0')
  have pre: "\<forall>r \<in> set toks0'. token_hash r \<in> hashToken J ` set ts \<longrightarrow> family_id r = f0"
  proof (intro ballI impI)
    fix r assume r: "r \<in> set toks0'" and h: "token_hash r \<in> hashToken J ` set ts"
    from r toks0' consider "r \<in> set toks0" | "r = ?row0" by auto
    then show "family_id r = f0"
    proof cases
      case 1
      from h obtain t where t: "t \<in> set ts" "token_hash r = hashToken J t" by blast
      from fresh t(1) have "hashToken J t \<notin> token_hash ` set toks0" by blast
      with t(2) have "token_hash r \<notin> token_hash ` set toks0" by simp
      with 1 show ?thesis by blast
    next
      case 2
      then show ?thesis by simp
    qed
  qed
  from rotate_chain_inv [OF ch ne pre]
  have i1: "length ts = length steps + 1" and i2: "hd ts = t0"
    and i3: "length final = length toks0' + length steps"
    and i4: "map token_hash (take (length toks0') final) = map token_hash toks0'"
    and i5: "map family_id (take (length toks0') final) = map family_id toks0'"
    and i6: "\<forall>i < length steps.
             token_hash (final ! (length toks0' + i)) = hashToken J (ts ! Suc i)
             \<and> family_id (final ! (length toks0' + i)) = f0"
    by simp_all
  have ts_ne: "ts \<noteq> []" using i1 by auto
  have ts0: "ts ! 0 = t0" using i2 ts_ne by (simp add: hd_conv_nth)
  have lt: "length toks0 < length toks0'" by (simp add: len0)
  have le: "length toks0' \<le> length final" by (simp add: i3)
  have nth0: "toks0' ! length toks0 = ?row0" by (simp add: toks0')
  have all: "\<forall>i < length ts.
            token_hash (final ! (length toks0 + i)) = hashToken J (ts ! i)
            \<and> family_id (final ! (length toks0 + i)) = f0"
  proof (intro allI impI)
    fix i assume i: "i < length ts"
    show "token_hash (final ! (length toks0 + i)) = hashToken J (ts ! i)
            \<and> family_id (final ! (length toks0 + i)) = f0"
    proof (cases i)
      case 0
      from map_take_nth [OF i4 lt le]
      have "token_hash (final ! length toks0) = token_hash (toks0' ! length toks0)" .
      moreover from map_take_nth [OF i5 lt le]
      have "family_id (final ! length toks0) = family_id (toks0' ! length toks0)" .
      ultimately show ?thesis using 0 nth0 ts0 by (simp add: t0)
    next
      case (Suc j)
      with i i1 have j: "j < length steps" by simp
      from i6 j have "token_hash (final ! (length toks0' + j)) = hashToken J (ts ! Suc j)
             \<and> family_id (final ! (length toks0' + j)) = f0" by blast
      then show ?thesis by (simp add: Suc len0)
    qed
  qed
  have l: "length final = length toks0 + length steps + 1" by (simp add: i3 len0)
  from fam0 i1 l all show "fam0 = f0 \<and> length ts = length steps + 1
      \<and> length final = length toks0 + length steps + 1
      \<and> (\<forall>i < length ts.
            token_hash (final ! (length toks0 + i)) = hashToken J (ts ! i)
            \<and> family_id (final ! (length toks0 + i)) = f0)"
    by blast
qed

text \<open>Rotation with a signing library whose tokens carry the time in whole seconds.\<close>

lemma seconds_sign:
  "signRefresh seconds_jose ''u1'' 1000 = ''u1.1''
   \<and> signRefresh seconds_jose ''u1'' 1400 = ''u1.1''
   \<and> signRefresh seconds_jose ''u1'' 1500 = ''u1.1''
   \<and> signRefresh seconds_jose ''u1'' 2000 = ''u1.2''
   \<and> signRefresh seconds_jose ''u1'' 3000 = ''u1.3''
   \<and> signRefresh seconds_jose ''u1'' 5000 = ''u1.5''"
  by (simp add: seconds_jose_def String_of_number_def decimal.simps digit_char_def)

lemma seconds_verify:
  "verifyToken seconds_jose now (''u1.'' @ rest)
     = Some \<lparr> sub = Some ''u1'', nickname = [], level = 0, jwt_email = [] \<rparr>"
  by (simp add: verifyToken_def seconds_jose_def example_claims_def opt_or_def)

lemma seconds_hash: "hashToken seconds_jose t = ''#'' @ t"
  by (simp add: seconds_jose_def example_digest_def)

lemma seconds_two_logins:
  "generateRefreshToken seconds_jose [] 1000 1001 ''famA'' ''u1'' None None None
     = ((''u1.1'', ''famA''), [seconds_row ''u1.1'' ''famA'' 1000 1001 None])
   \<and> generateRefreshToken seconds_jose [seconds_row ''u1.1'' ''famA'' 1000 1001 None]
        1400 1401 ''famB'' ''u1'' None None None
     = ((''u1.1'', ''famB''),
        [seconds_row ''u1.1'' ''famA'' 1000 1001 None,
         seconds_row ''u1.1'' ''famB'' 1400 1401 None])"
  by (simp add: generateRefreshToken_def storeRefreshToken_def Let_def opt_or_def
        seconds_sign seconds_hash seconds_row_def REFRESH_TOKEN_TTL_MS_def)

lemma seconds_rotate_other_family:
  "rotateRefreshToken seconds_jose
      [seconds_row ''u1.1'' ''famA'' 1000 1001 None,
       seconds_row ''u1.1'' ''famB'' 1400 1401 None]
      5000 5001 ''g1'' ''u1.1'' None None
     = (Some (''u1.5'', ''u1''),
        [seconds_row ''u1.1'' ''famA'' 1000 1001 (Some 5001),
         seconds_row ''u1.1'' ''famB'' 1400 1401 (Some 5001),
         seconds_row ''u1.5'' ''famA'' 5000 5001 None])"
proof -
  have v: "verifyToken seconds_jose 5000 ''u1.1''
             = Some \<lparr> sub = Some ''u1'', nickname = [], level = 0, jwt_email = [] \<rparr>"
    using seconds_verify [of 5000 "''1''"] by simp
  show ?thesis
    by (simp add: rotateRefreshToken_def v truthy_def seconds_hash findValidToken_def
          revokeToken_def generateRefreshToken_def storeRefreshToken_def Let_def
          opt_or_def js_or_def seconds_sign seconds_row_def REFRESH_TOKEN_TTL_MS_def)
qed

lemma seconds_rotate_same_second:
  "rotateRefreshToken seconds_jose [seconds_row ''u1.1'' ''famA'' 1000 1001 None]
      1500 1501 ''g1'' ''u1.1'' None None
     = (Some (''u1.1'', ''u1''),
        [seconds_row ''u1.1'' ''famA'' 1000 1001 (Some 1501),
         seconds_row ''u1.1'' ''famA'' 1500 1501 None])
   \<and> rotateRefreshToken seconds_jose
        [seconds_row ''u1.1'' ''famA'' 1000 1001 (Some 1501),
         seconds_row ''u1.1'' ''famA'' 1500 1501 None]
        2500 2501 ''g2'' ''u1.1'' None None
     = (None,
        [seconds_row ''u1.1'' ''famA'' 1000 1001 (Some 1501),
         seconds_row ''u1.1'' ''famA'' 1500 1501 (Some 2501)])"
proof -
  have v: "verifyToken seconds_jose now ''u1.1''
             = Some \<lparr> sub = Some ''u1'', nickname = [], level = 0, jwt_email = [] \<rparr>" for now
    using seconds_verify [of now "''1''"] by simp
  show ?thesis
    by (simp add: rotateRefreshToken_def v truthy_def seconds_hash findValidToken_def
          revokeToken_def revokeTokenFamily_def generateRefreshToken_def
          storeRefreshToken_def Let_def opt_or_def js_or_def seconds_sign seconds_row_def
          REFRESH_TOKEN_TTL_MS_def)
qed

lemma seconds_chain_same_second:
  "rotate_chain seconds_jose [seconds_row ''u1.1'' ''famA'' 1000 1001 None] ''u1.1''
      [(1500, 1501, ''g1'', None, None), (2500, 2501, ''g2'', None, None)] = None"
  by (simp add: seconds_rotate_same_second)

lemma seconds_chain_distinct_seconds:
  "rotate_chain seconds_jose [seconds_row ''u1.1'' ''famA'' 1000 1001 None] ''u1.1''
      [(2000, 2001, ''g1'', None, None), (3000, 3001, ''g2'', None, None)]
     = Some ([''u1.1'', ''u1.2'', ''u1.3''],
             [seconds_row ''u1.1'' ''famA'' 1000 1001 (Some 2001),
              seconds_row ''u1.2'' ''famA'' 2000 2001 (Some 3001),
              seconds_row ''u1.3'' ''famA'' 3000 3001 None])"
proof -
  have v: "verifyToken seconds_jose now ''u1.1''
             = Some \<lparr> sub = Some ''u1'', nickname = [], level = 0, jwt_email = [] \<rparr>"
    and v2: "verifyToken seconds_jose now ''u1.2''
             = Some \<lparr> sub = Some ''u1'', nickname = [], level = 0, jwt_email = [] \<rparr>" for now
    using seconds_verify [of now "''1''"] seconds_verify [of now "''2''"] by simp_all
  show ?thesis
    by (simp add: rotateRefreshToken_def v v2 truthy_def seconds_hash findValidToken_def
          revokeToken_def generateRefreshToken_def storeRefreshToken_def Let_def
          opt_or_def js_or_def seconds_sign seconds_row_def REFRESH_TOKEN_TTL_MS_def)
qed

text \<open>
  C3. Rotation is to revoke the old token and store the new one under the same family
  id, so that \<open>N\<close> rotations leave \<open>N + 1\<close> tokens of one family. The code does so when
  the tokens are signed in different seconds (last equation). Two tokens signed for one
  member within one second are the same string and have the same hash, and validation
  reads the first row of a hash. So a token issued for a second login, with family
  \<open>famB\<close>, passes signature verification and store validation through the row of the
  first login and is rotated into family \<open>famA\<close>; and a token rotated in the second it
  was issued in comes back unchanged, after which the next rotation reads the revoked
  first row, revokes the family and returns nothing.
\<close>

theorem rotation_of_same_second_tokens:
  "fst (generateRefreshToken seconds_jose [] 1000 1001 ''famA'' ''u1'' None None None)
     = (''u1.1'', ''famA'')
   \<and> generateRefreshToken seconds_jose
        (snd (generateRefreshToken seconds_jose [] 1000 1001 ''famA'' ''u1'' None None None))
        1400 1401 ''famB'' ''u1'' None None None
     = ((''u1.1'', ''famB''),
        [seconds_row ''u1.1'' ''famA'' 1000 1001 None,
         seconds_row ''u1.1'' ''famB'' 1400 1401 None])
   \<and> verifyToken seconds_jose 5000 ''u1.1''
     = Some \<lparr> sub = Some ''u1'', nickname = [], level = 0, jwt_email = [] \<rparr>
   \<and> findValidToken
        [seconds_row ''u1.1'' ''famA'' 1000 1001 None,
         seconds_row ''u1.1'' ''famB'' 1400 1401 None]
        5000 5001 (hashToken seconds_jose ''u1.1'')
     = (Some (''u1'', ''famA''),
        [seconds_row ''u1.1'' ''famA'' 1000 1001 None,
         seconds_row ''u1.1'' ''famB'' 1400 1401 None])
   \<and> rotateRefreshToken seconds_jose
        [seconds_row ''u1.1'' ''famA'' 1000 1001 None,
         seconds_row ''u1.1'' ''famB'' 1400 1401 None]
        5000 5001 ''g1'' ''u1.1'' None None
     = (Some (''u1.5'', ''u1''),
        [seconds_row ''u1.1'' ''famA'' 1000 1001 (Some 5001),
         seconds_row ''u1.1'' ''famB'' 1400 1401 (Some 5001),
         seconds_row ''u1.5'' ''famA'' 5000 5001 None])
   \<and> family_id (seconds_row ''u1.5'' ''famA'' 5000 5001 None) \<noteq> ''famB''
   \<and> rotate_chain seconds_jose [seconds_row ''u1.1'' ''famA'' 1000 1001 None] ''u1.1''
        [(1500, 1501, ''g1'', None, None), (2500, 2501, ''g2'', None, None)] = None
   \<and> rotate_chain seconds_jose [seconds_row ''u1.1'' ''famA'' 1000 1001 None] ''u1.1''
        [(2000, 2001, ''g1'', None, None), (3000, 3001, ''g2'', None, None)]
     = Some ([''u1.1'', ''u1.2'', ''u1.3''],
             [seconds_row ''u1.1'' ''famA'' 1000 1001 (Some 2001),
              seconds_row ''u1.2'' ''famA'' 2000 2001 (Some 3001),
              seconds_row ''u1.3'' ''famA'' 3000 3001 None])"
proof (intro conjI)
  show "fst (generateRefreshToken seconds_jose [] 1000 1001 ''famA'' ''u1'' None None None)
     = (''u1.1'', ''famA'')"
    by (simp add: seconds_two_logins)
  show "generateRefreshToken seconds_jose
        (snd (generateRefreshToken seconds_jose [] 1000 1001 ''famA'' ''u1'' None None None))
        1400 1401 ''famB'' ''u1'' None None None
     = ((''u1.1'', ''famB''),
        [seconds_row ''u1.1'' ''famA'' 1000 1001 None,
         seconds_row ''u1.1'' ''famB'' 1400 1401 None])"
    by (simp add: seconds_two_logins)
  show "verifyToken seconds_jose 5000 ''u1.1''
     = Some \<lparr> sub = Some ''u1'', nickname = [], level = 0, jwt_email = [] \<rparr>"
    using seconds_verify [of 5000 "''1''"] by simp
  show "findValidToken
        [seconds_row ''u1.1'' ''famA'' 1000 1001 None,
         seconds_row ''u1.1'' ''famB'' 1400 1401 None]
        5000 5001 (hashToken seconds_jose ''u1.1'')
     = (Some (''u1'', ''famA''),
        [seconds_row ''u1.1'' ''famA'' 1000 1001 None,
         seconds_row ''u1.1'' ''famB'' 1400 1401 None])"
    by (simp add: findValidToken_def seconds_hash seconds_row_def)
  show "rotateRefreshToken seconds_jose
        [seconds_row ''u1.1'' ''famA'' 1000 1001 None,
         seconds_row ''u1.1'' ''famB'' 1400 1401 None]
        5000 5001 ''g1'' ''u1.1'' None None
     = (Some (''u1.5'', ''u1''),
        [seconds_row ''u1.1'' ''famA'' 1000 1001 (Some 5001),
         seconds_row ''u1.1'' ''famB'' 1400 1401 (Some 5001),
         seconds_row ''u1.5'' ''famA'' 5000 5001 None])"
    by (rule seconds_rotate_other_family)
  show "family_id (seconds_row ''u1.5'' ''famA'' 5000 5001 None) \<noteq> ''famB''"
    by (simp add: seconds_row_def)
  show "rotate_chain seconds_jose [seconds_row ''u1.1'' ''famA'' 1000 1001 None] ''u1.1''
        [(1500, 1501, ''g1'', None, None), (2500, 2501, ''g2'', None, None)] = None"
    by (rule seconds_chain_same_second)
  show "rotate_chain seconds_jose [seconds_row ''u1.1'' ''famA'' 1000 1001 None] ''u1.1''
        [(2000, 2001, ''g1'', None, None), (3000, 3001, ''g2'', None, None)]
     = Some ([''u1.1'', ''u1.2'', ''u1.3''],
             [seconds_row ''u1.1'' ''famA'' 1000 1001 (Some 2001),
              seconds_row ''u1.2'' ''famA'' 2000 2001 (Some 3001),
              seconds_row ''u1.3'' ''famA'' 3000 3001 None])"
    by (rule seconds_chain_distinct_seconds)
qed

section \<open>Properties of the OAuth state\<close>

lemma validateOAuthState_failure_keeps_cookie:
  "fst (validateOAuthState P cks now st) = None \<Longrightarrow> snd (validateOAuthState P cks now st) = cks"
  by (simp add: validateOAuthState_def split: option.splits if_splits)

lemma validateOAuthState_no_cookie:
  "cks STATE_COOKIE_NAME = None \<Longrightarrow> validateOAuthState P cks now st = (None, cks)"
  by (simp add: validateOAuthState_def)

text \<open>
  C2. A state that has just been created validates once: with a serialisation that
  parses back to the data and within 600 seconds of issuance, \<open>validateOAuthState\<close> with
  the same string returns the data and deletes the cookie, and a second call with the
  same string returns nothing. Validation returns nothing when the cookie is absent or
  empty, when it does not parse, when the presented string differs from the stored state,
  and when more than 600 seconds have passed since issuance; whenever it returns nothing
  it leaves the cookies as they are.
\<close>

theorem oauth_state_single_use:
  "(JSON_parse (JSON_stringify \<lparr> state = g, sd_provider = p, redirect = r, timestamp = now0 \<rparr>)
       = Some \<lparr> state = g, sd_provider = p, redirect = r, timestamp = now0 \<rparr>
     \<and> JSON_stringify \<lparr> state = g, sd_provider = p, redirect = r, timestamp = now0 \<rparr> \<noteq> []
     \<and> now1 - now0 \<le> 600 * 1000 \<longrightarrow>
       fst (createOAuthState JSON_stringify cks0 now0 g p r) = g
     \<and> validateOAuthState JSON_parse (snd (createOAuthState JSON_stringify cks0 now0 g p r))
           now1 g
         = (Some \<lparr> state = g, sd_provider = p, redirect = r, timestamp = now0 \<rparr>,
            (snd (createOAuthState JSON_stringify cks0 now0 g p r))
              (STATE_COOKIE_NAME := None))
     \<and> validateOAuthState JSON_parse
           (snd (validateOAuthState JSON_parse
                   (snd (createOAuthState JSON_stringify cks0 now0 g p r)) now1 g))
           now2 g
         = (None, (snd (createOAuthState JSON_stringify cks0 now0 g p r))
                    (STATE_COOKIE_NAME := None)))
   \<and> (fst (validateOAuthState P cks now st) = None \<longrightarrow>
        snd (validateOAuthState P cks now st) = cks)
   \<and> (cks STATE_COOKIE_NAME = None \<or> cks STATE_COOKIE_NAME = Some [] \<longrightarrow>
        validateOAuthState P cks now st = (None, cks))
   \<and> (cks STATE_COOKIE_NAME = Some raw \<and> P raw = None \<longrightarrow>
        validateOAuthState P cks now st = (None, cks))
   \<and> (cks STATE_COOKIE_NAME = Some raw \<and> P raw = Some d \<and> state d \<noteq> st \<longrightarrow>
        validateOAuthState P cks now st = (None, cks))
   \<and> (cks STATE_COOKIE_NAME = Some raw \<and> P raw = Some d
        \<and> now - timestamp d > 600 * 1000 \<longrightarrow>
        validateOAuthState P cks now st = (None, cks))"
proof (intro conjI impI)
  let ?d = "\<lparr> state = g, sd_provider = p, redirect = r, timestamp = now0 \<rparr>"
  let ?c1 = "snd (createOAuthState JSON_stringify cks0 now0 g p r)"
  assume a: "JSON_parse (JSON_stringify ?d) = Some ?d \<and> JSON_stringify ?d \<noteq> []
     \<and> now1 - now0 \<le> 600 * 1000"
  have c1: "?c1 = cks0(STATE_COOKIE_NAME \<mapsto> JSON_stringify ?d)"
    by (simp add: createOAuthState_def Let_def)
  show "fst (createOAuthState JSON_stringify cks0 now0 g p r) = g"
    by (simp add: createOAuthState_def Let_def)
  show v1: "validateOAuthState JSON_parse ?c1 now1 g
         = (Some ?d, ?c1(STATE_COOKIE_NAME := None))"
    using a by (simp add: c1 validateOAuthState_def STATE_MAX_AGE_def)
  show "validateOAuthState JSON_parse (snd (validateOAuthState JSON_parse ?c1 now1 g)) now2 g
         = (None, ?c1(STATE_COOKIE_NAME := None))"
    by (simp add: v1 validateOAuthState_no_cookie)
next
  assume "fst (validateOAuthState P cks now st) = None"
  then show "snd (validateOAuthState P cks now st) = cks"
    by (rule validateOAuthState_failure_keeps_cookie)
next
  assume "cks STATE_COOKIE_NAME = None \<or> cks STATE_COOKIE_NAME = Some []"
  then show "validateOAuthState P cks now st = (None, cks)"
    by (auto simp: validateOAuthState_def)
next
  assume "cks STATE_COOKIE_NAME = Some raw \<and> P raw = None"
  then show "validateOAuthState P cks now st = (None, cks)"
    by (simp add: validateOAuthState_def)
next
  assume "cks STATE_COOKIE_NAME = Some raw \<and> P raw = Some d \<and> state d \<noteq> st"
  then show "validateOAuthState P cks now st = (None, cks)"
    by (simp add: validateOAuthState_def)
next
  assume "cks STATE_COOKIE_NAME = Some raw \<and> P raw = Some d \<and> now - timestamp d > 600 * 1000"
  then show "validateOAuthState P cks now st = (None, cks)"
    by (simp add: validateOAuthState_def STATE_MAX_AGE_def)
qed

theorem oauth_state_single_use_witness:
  "validateOAuthState example_parse_state
      (snd (createOAuthState example_stringify_state Map.empty 5000 ''s0'' Naver ''/free''))
      605000 ''s0''
     = (Some example_state, Map.empty)
   \<and> validateOAuthState example_parse_state
      (snd (validateOAuthState example_parse_state
         (snd (createOAuthState example_stringify_state Map.empty 5000 ''s0'' Naver ''/free''))
         605000 ''s0''))
      605000 ''s0''
     = (None, Map.empty)
   \<and> validateOAuthState example_parse_state [STATE_COOKIE_NAME \<mapsto> ''state=s0''] 605001 ''s0''
     = (None, [STATE_COOKIE_NAME \<mapsto> ''state=s0''])
   \<and> validateOAuthState example_parse_state [STATE_COOKIE_NAME \<mapsto> ''state=s0''] 6000 ''s1''
     = (None, [STATE_COOKIE_NAME \<mapsto> ''state=s0''])
   \<and> validateOAuthState example_parse_state [STATE_COOKIE_NAME \<mapsto> ''garbage''] 6000 ''s0''
     = (None, [STATE_COOKIE_NAME \<mapsto> ''garbage''])
   \<and> validateOAuthState example_parse_state Map.empty 6000 ''s0'' = (None, Map.empty)"
proof -
  let ?d = "\<lparr> state = ''s0'', sd_provider = Naver, redirect = ''/free'', timestamp = 5000 \<rparr>"
  let ?c = "[STATE_COOKIE_NAME \<mapsto> ''state=s0'']"
  have h1: "example_parse_state (example_stringify_state ?d) = Some ?d
     \<and> example_stringify_state ?d \<noteq> [] \<and> (605000::int) - 5000 \<le> 600 * 1000"
    by (simp add: example_parse_state_def example_stringify_state_def example_state_def)
  have h2: "?c STATE_COOKIE_NAME = Some ''state=s0''
              \<and> example_parse_state ''state=s0'' = Some example_state
              \<and> (605001::int) - timestamp example_state > 600 * 1000"
    by (simp add: example_parse_state_def example_state_def)
  have h3: "?c STATE_COOKIE_NAME = Some ''state=s0''
              \<and> example_parse_state ''state=s0'' = Some example_state
              \<and> state example_state \<noteq> ''s1''"
    by (simp add: example_parse_state_def example_state_def)
  have h4: "[STATE_COOKIE_NAME \<mapsto> ''garbage''] STATE_COOKIE_NAME = Some ''garbage''
              \<and> example_parse_state ''garbage'' = None"
    by (simp add: example_parse_state_def)
  have h5: "(Map.empty :: cookies) STATE_COOKIE_NAME = None
              \<or> (Map.empty :: cookies) STATE_COOKIE_NAME = Some []"
    by simp
  have c: "snd (createOAuthState example_stringify_state Map.empty 5000 ''s0'' Naver ''/free'')
             = ?c"
    by (simp add: createOAuthState_def example_stringify_state_def Let_def)
  note t = oauth_state_single_use
    [where JSON_parse = example_parse_state and JSON_stringify = example_stringify_state
       and g = "''s0''" and p = Naver and r = "''/free''" and ?now0.0 = 5000
       and ?now1.0 = 605000 and ?now2.0 = 605000 and ?cks0.0 = Map.empty
       and P = example_parse_state]
  from t [where cks = ?c and now = 605001 and st = "''s0''" and raw = "''state=s0''"
            and d = example_state] h1
  have a: "validateOAuthState example_parse_state
      (snd (createOAuthState example_stringify_state Map.empty 5000 ''s0'' Naver ''/free''))
      605000 ''s0''
     = (Some ?d, (snd (createOAuthState example_stringify_state Map.empty 5000 ''s0'' Naver
                         ''/free''))(STATE_COOKIE_NAME := None))"
    and b: "validateOAuthState example_parse_state
      (snd (validateOAuthState example_parse_state
         (snd (createOAuthState example_stringify_state Map.empty 5000 ''s0'' Naver ''/free''))
         605000 ''s0''))
      605000 ''s0''
     = (None, (snd (createOAuthState example_stringify_state Map.empty 5000 ''s0'' Naver
                         ''/free''))(STATE_COOKIE_NAME := None))"
    by blast+
  from t [where cks = ?c and now = 605001 and st = "''s0''" and raw = "''state=s0''"
            and d = example_state] h2
  have e: "validateOAuthState example_parse_state ?c 605001 ''s0'' = (None, ?c)"
    by blast
  from t [where cks = ?c and now = 6000 and st = "''s1''" and raw = "''state=s0''"
            and d = example_state] h3
  have f: "validateOAuthState example_parse_state ?c 6000 ''s1'' = (None, ?c)"
    by blast
  from t [where cks = "[STATE_COOKIE_NAME \<mapsto> ''garbage'']" and now = 6000 and st = "''s0''"
            and raw = "''garbage''" and d = example_state] h4
  have g: "validateOAuthState example_parse_state [STATE_COOKIE_NAME \<mapsto> ''garbage''] 6000 ''s0''
             = (None, [STATE_COOKIE_NAME \<mapsto> ''garbage''])"
    by blast
  from t [where cks = Map.empty and now = 6000 and st = "''s0''" and raw = "''garbage''"
            and d = example_state] h5
  have h: "validateOAuthState example_parse_state Map.empty 6000 ''s0'' = (None, Map.empty)"
    by blast
  have a': "validateOAuthState example_parse_state
      (snd (createOAuthState example_stringify_state Map.empty 5000 ''s0'' Naver ''/free''))
      605000 ''s0'' = (Some example_state, Map.empty)"
    unfolding a by (simp add: c example_state_def)
  have b': "validateOAuthState example_parse_state
      (snd (validateOAuthState example_parse_state
         (snd (createOAuthState example_stringify_state Map.empty 5000 ''s0'' Naver ''/free''))
         605000 ''s0''))
      605000 ''s0'' = (None, Map.empty)"
    unfolding b by (simp add: c)
  from a' b' e f g h show ?thesis by (intro conjI)
qed

section \<open>Properties of the provider adapters\<close>

text \<open>
  The Facebook adapter builds \<open>profileUrl\<close> from the identifier, so on a payload with
  the identifier alone it is not the empty string.
\<close>

theorem parseUserProfile_facebook_profileUrl_counterexample:
  "profileUrl (FacebookProvider_parseUserProfile
      \<lparr> fb_id = ''1001'', fb_name = None, fb_email = None, fb_picture = None \<rparr>)
     = ''https://www.facebook.com/1001''
   \<and> profileUrl (FacebookProvider_parseUserProfile
      \<lparr> fb_id = ''1001'', fb_name = None, fb_email = None, fb_picture = None \<rparr>) \<noteq> []"
  by (simp add: FacebookProvider_parseUserProfile_def)

text \<open>
  C7, as the adapters have it. On a payload with only the required fields (the
  identifier), every adapter returns a profile with \<open>displayName\<close>, \<open>email\<close> and
  \<open>photoUrl\<close> empty; \<open>profileUrl\<close> is empty for all adapters but Facebook's, where it is
  the address of the profile page of the identifier. The adapters are total on the
  payloads their interfaces declare: nothing is thrown.
\<close>

theorem parseUserProfile_required_fields_only:
  "NaverProvider_parseUserProfile
      \<lparr> nv_id = i, nv_nickname = None, nv_email = None, nv_profile_image = None,
        nv_name = None \<rparr>
     = \<lparr> provider = ''naver'', profile_identifier = i, displayName = [], email = [],
         photoUrl = [], profileUrl = [] \<rparr>
   \<and> KakaoProvider_parseUserProfile
      \<lparr> kk_id = n, kk_properties = None, kk_kakao_account = None \<rparr>
     = \<lparr> provider = ''kakao'', profile_identifier = String_of_number n, displayName = [],
         email = [], photoUrl = [], profileUrl = [] \<rparr>
   \<and> GoogleProvider_parseUserProfile
      \<lparr> gg_sub = i, gg_name = None, gg_given_name = None, gg_family_name = None,
        gg_picture = None, gg_email = None, gg_email_verified = None \<rparr>
     = \<lparr> provider = ''google'', profile_identifier = i, displayName = [], email = [],
         photoUrl = [], profileUrl = [] \<rparr>
   \<and> FacebookProvider_parseUserProfile
      \<lparr> fb_id = i, fb_name = None, fb_email = None, fb_picture = None \<rparr>
     = \<lparr> provider = ''facebook'', profile_identifier = i, displayName = [], email = [],
         photoUrl = [], profileUrl = ''https://www.facebook.com/'' @ i \<rparr>
   \<and> AppleProvider_parseUserProfile \<lparr> ap_sub = i, ap_email = None \<rparr>
     = \<lparr> provider = ''apple'', profile_identifier = i, displayName = [], email = [],
         photoUrl = [], profileUrl = [] \<rparr>
   \<and> TwitterProvider_parseUserProfile
      \<lparr> tw_id = i, tw_name = None, tw_username = None, tw_profile_image_url = None \<rparr>
     = \<lparr> provider = ''twitter'', profile_identifier = i, displayName = [], email = [],
         photoUrl = [], profileUrl = [] \<rparr>
   \<and> PaycoProvider_parseUserProfile
      \<lparr> pc_header = header,
        pc_data = Some \<lparr> pd_member = Some
          \<lparr> pm_idNo = Some i, pm_email = None, pm_name = None, pm_mobile = None,
            pm_birthdayMMdd = None, pm_profileImageUrl = None, pm_genderCode = None \<rparr> \<rparr> \<rparr>
     = \<lparr> provider = ''payco'', profile_identifier = i, displayName = [], email = [],
         photoUrl = [], profileUrl = [] \<rparr>"
proof (intro conjI)
  show "NaverProvider_parseUserProfile
      \<lparr> nv_id = i, nv_nickname = None, nv_email = None, nv_profile_image = None,
        nv_name = None \<rparr>
     = \<lparr> provider = ''naver'', profile_identifier = i, displayName = [], email = [],
         photoUrl = [], profileUrl = [] \<rparr>"
    by (simp add: NaverProvider_parseUserProfile_def opt_or_def)
  show "KakaoProvider_parseUserProfile
      \<lparr> kk_id = n, kk_properties = None, kk_kakao_account = None \<rparr>
     = \<lparr> provider = ''kakao'', profile_identifier = String_of_number n, displayName = [],
         email = [], photoUrl = [], profileUrl = [] \<rparr>"
    by (simp add: KakaoProvider_parseUserProfile_def opt_or_def)
  show "GoogleProvider_parseUserProfile
      \<lparr> gg_sub = i, gg_name = None, gg_given_name = None, gg_family_name = None,
        gg_picture = None, gg_email = None, gg_email_verified = None \<rparr>
     = \<lparr> provider = ''google'', profile_identifier = i, displayName = [], email = [],
         photoUrl = [], profileUrl = [] \<rparr>"
    by (simp add: GoogleProvider_parseUserProfile_def opt_or_def)
  show "FacebookProvider_parseUserProfile
      \<lparr> fb_id = i, fb_name = None, fb_email = None, fb_picture = None \<rparr>
     = \<lparr> provider = ''facebook'', profile_identifier = i, displayName = [], email = [],
         photoUrl = [], profileUrl = ''https://www.facebook.com/'' @ i \<rparr>"
    by (simp add: FacebookProvider_parseUserProfile_def opt_or_def)
  show "AppleProvider_parseUserProfile \<lparr> ap_sub = i, ap_email = None \<rparr>
     = \<lparr> provider = ''apple'', profile_identifier = i, displayName = [], email = [],
         photoUrl = [], profileUrl = [] \<rparr>"
    by (simp add: AppleProvider_parseUserProfile_def opt_or_def)
  show "TwitterProvider_parseUserProfile
      \<lparr> tw_id = i, tw_name = None, tw_username = None, tw_profile_image_url = None \<rparr>
     = \<lparr> provider = ''twitter'', profile_identifier = i, displayName = [], email = [],
         photoUrl = [], profileUrl = [] \<rparr>"
    by (simp add: TwitterProvider_parseUserProfile_def opt_or_def truthy_def)
  show "PaycoProvider_parseUserProfile
      \<lparr> pc_header = header,
        pc_data = Some \<lparr> pd_member = Some
          \<lparr> pm_idNo = Some i, pm_email = None, pm_name = None, pm_mobile = None,
            pm_birthdayMMdd = None, pm_profileImageUrl = None, pm_genderCode = None \<rparr> \<rparr> \<rparr>
     = \<lparr> provider = ''payco'', profile_identifier = i, displayName = [], email = [],
         photoUrl = [], profileUrl = [] \<rparr>"
    by (simp add: PaycoProvider_parseUserProfile_def opt_or_def js_or_def Let_def)
qed

section \<open>Properties of the OAuth callback\<close>

lemma validateOAuthState_success:
  assumes "validateOAuthState P cks now st = (Some d, cks')"
  shows "cks' = cks(STATE_COOKIE_NAME := None)"
proof (cases "cks STATE_COOKIE_NAME")
  case None
  with assms show ?thesis by (simp add: validateOAuthState_def)
next
  case (Some raw)
  show ?thesis
  proof (cases "raw = []")
    case True
    with assms Some show ?thesis by (simp add: validateOAuthState_def)
  next
    case False
    show ?thesis
    proof (cases "P raw")
      case None
      with assms Some False show ?thesis by (simp add: validateOAuthState_def)
    next
      case (Some d')
      with assms \<open>cks STATE_COOKIE_NAME = Some raw\<close> False show ?thesis
        by (simp add: validateOAuthState_def split: if_splits)
    qed
  qed
qed

lemma handleCallback_provider_mismatch:
  assumes n: "normalizeProviderName slug = Some pn"
      and v: "validateOAuthState (parse_state C) (w_cookies w) (clock_now A) st
                = (Some data, cks)"
      and m: "sd_provider data \<noteq> pn"
  shows "handleCallback C N R hashSessionId A w slug code st clientIp origin
           = (Redirect 302 ''/login?error=provider_mismatch'',
              w\<lparr> w_cookies := (w_cookies w)(STATE_COOKIE_NAME := None) \<rparr>)"
proof -
  from validateOAuthState_success [OF v]
  have "cks = (w_cookies w)(STATE_COOKIE_NAME := None)" .
  with n v m show ?thesis
    by (simp add: handleCallback_def)
qed

lemma handleCallback_without_state_cookie:
  assumes "normalizeProviderName slug = Some pn"
      and "w_cookies w STATE_COOKIE_NAME = None"
  shows "handleCallback C N R hashSessionId A w slug code st clientIp origin
           = (Redirect 302 ''/login?error=invalid_state'', w)"
  using assms by (simp add: handleCallback_def validateOAuthState_no_cookie)

text \<open>The callback on the example data, with the provider the state was created for.\<close>

lemma example_validate:
  "validateOAuthState (parse_state example_codec) (w_cookies example_world)
      (clock_now example_ambient) ''s0''
     = (Some example_state, Map.empty)"
  by (simp add: validateOAuthState_def example_codec_def example_world_def
        example_ambient_def example_parse_state_def example_state_def STATE_MAX_AGE_def)

lemma example_normalize:
  "normalizeProviderName ''naver'' = Some Naver
   \<and> normalizeProviderName ''Kakao'' = Some Kakao"
  by (simp add: normalizeProviderName_def toLowerCase_def lower_char_def VALID_PROVIDERS_def)

lemma example_callback_try:
  "callback_try example_codec example_net (example_repo nickname_unused) example_digest
      example_ambient (example_world\<lparr> w_cookies := Map.empty \<rparr>) Naver example_state
      ''code1'' ''10.0.0.1'' ''https://damoang.net''
     = Inr (Redirect 302 ''/free'',
            \<lparr> w_cookies = [SESSION_COOKIE_NAME \<mapsto> ''sid1'', CSRF_COOKIE_NAME \<mapsto> ''csrf1''],
              w_sessions = [''#sid1'' \<mapsto>
                 \<lparr> s_mb_id = ''u1'', csrf_token = ''csrf1'', s_ip = Some ''10.0.0.1'',
                   s_user_agent = Some [], s_created_at = 6001, last_active_at = 6001,
                   s_expires_at = 2592006000 \<rparr>],
              w_tokens = [],
              w_db = ([example_member], [example_link]),
              w_calls =
                [ExchangeCode Naver ''code1'' None, GetUserProfile Naver ''at'' None,
                 FindSocialProfile ''naver'' ''n1'', GetMemberById ''u1'',
                 UpsertSocialProfile ''u1'' ''naver''
                   \<lparr> provider = ''naver'', profile_identifier = ''n1'', displayName = [],
                     email = [], photoUrl = [], profileUrl = [] \<rparr>,
                 UpdateLoginTimestamp ''u1'' ''10.0.0.1'', CreateSession ''u1''] \<rparr>)"
  by (simp add: callback_try_def Let_def
        example_state_def example_net_def example_repo_def example_world_def
        example_ambient_def getUserProfile_def NaverProvider_parseUserProfile_def
        opt_or_def js_or_def truthy_def called_def set_cookie_def delete_cookie_def
        example_link_def example_member_def createSession_def example_digest_def
        SESSION_MAX_AGE_MS_def SESSION_COOKIE_NAME_def CSRF_COOKIE_NAME_def)

lemma example_matching_callback:
  "handleCallback example_codec example_net (example_repo nickname_unused)
       example_digest example_ambient example_world ''naver'' ''code1'' ''s0'' ''10.0.0.1''
       ''https://damoang.net''
     = (Redirect 302 ''/free'',
            \<lparr> w_cookies = [SESSION_COOKIE_NAME \<mapsto> ''sid1'', CSRF_COOKIE_NAME \<mapsto> ''csrf1''],
              w_sessions = [''#sid1'' \<mapsto>
                 \<lparr> s_mb_id = ''u1'', csrf_token = ''csrf1'', s_ip = Some ''10.0.0.1'',
                   s_user_agent = Some [], s_created_at = 6001, last_active_at = 6001,
                   s_expires_at = 2592006000 \<rparr>],
              w_tokens = [],
              w_db = ([example_member], [example_link]),
              w_calls =
                [ExchangeCode Naver ''code1'' None, GetUserProfile Naver ''at'' None,
                 FindSocialProfile ''naver'' ''n1'', GetMemberById ''u1'',
                 UpsertSocialProfile ''u1'' ''naver''
                   \<lparr> provider = ''naver'', profile_identifier = ''n1'', displayName = [],
                     email = [], photoUrl = [], profileUrl = [] \<rparr>,
                 UpdateLoginTimestamp ''u1'' ''10.0.0.1'', CreateSession ''u1''] \<rparr>)"
proof -
  have p: "sd_provider example_state = Naver" by (simp add: example_state_def)
  show ?thesis
    by (simp add: handleCallback_def example_normalize example_validate p
          example_callback_try)
qed

text \<open>
  C6. When the provider named in the callback path is not the provider of the validated
  state data, \<open>handleCallback\<close> answers with the redirect to the login page with reason
  \<open>provider_mismatch\<close>, and nothing else happens: no call to a provider or a
  collaborator is made (no code exchange, no profile fetch, no member resolution), no
  session is created, the tables and the collaborators' state are as before; only the
  state cookie is gone.
\<close>

theorem handleCallback_mismatch_stops_flow:
  assumes "normalizeProviderName slug = Some pn"
      and "validateOAuthState (parse_state C) (w_cookies w) (clock_now A) st
             = (Some data, cks)"
      and "sd_provider data \<noteq> pn"
  shows "fst (handleCallback C N R hashSessionId A w slug code st clientIp origin)
           = Redirect 302 ''/login?error=provider_mismatch''
       \<and> w_calls (snd (handleCallback C N R hashSessionId A w slug code st clientIp origin))
           = w_calls w
       \<and> w_sessions (snd (handleCallback C N R hashSessionId A w slug code st clientIp origin))
           = w_sessions w
       \<and> w_tokens (snd (handleCallback C N R hashSessionId A w slug code st clientIp origin))
           = w_tokens w
       \<and> w_db (snd (handleCallback C N R hashSessionId A w slug code st clientIp origin))
           = w_db w
       \<and> w_cookies (snd (handleCallback C N R hashSessionId A w slug code st clientIp origin))
           = (w_cookies w)(STATE_COOKIE_NAME := None)"
  by (simp add: handleCallback_provider_mismatch [OF assms])

theorem handleCallback_mismatch_stops_flow_witness:
  "fst (handleCallback example_codec example_net (example_repo nickname_unused)
          example_digest example_ambient example_world ''Kakao'' ''code1'' ''s0''
          ''10.0.0.1'' ''https://damoang.net'')
     = Redirect 302 ''/login?error=provider_mismatch''
   \<and> w_calls (snd (handleCallback example_codec example_net (example_repo nickname_unused)
          example_digest example_ambient example_world ''Kakao'' ''code1'' ''s0''
          ''10.0.0.1'' ''https://damoang.net'')) = []
   \<and> w_sessions (snd (handleCallback example_codec example_net (example_repo nickname_unused)
          example_digest example_ambient example_world ''Kakao'' ''code1'' ''s0''
          ''10.0.0.1'' ''https://damoang.net'')) = Map.empty
   \<and> w_calls (snd (handleCallback example_codec example_net (example_repo nickname_unused)
          example_digest example_ambient example_world ''naver'' ''code1'' ''s0''
          ''10.0.0.1'' ''https://damoang.net''))
     = [ExchangeCode Naver ''code1'' None, GetUserProfile Naver ''at'' None,
        FindSocialProfile ''naver'' ''n1'', GetMemberById ''u1'',
        UpsertSocialProfile ''u1'' ''naver''
          \<lparr> provider = ''naver'', profile_identifier = ''n1'', displayName = [],
            email = [], photoUrl = [], profileUrl = [] \<rparr>,
        UpdateLoginTimestamp ''u1'' ''10.0.0.1'', CreateSession ''u1'']"
proof -
  have n: "normalizeProviderName ''Kakao'' = Some Kakao"
    by (simp add: example_normalize)
  have m: "sd_provider example_state \<noteq> Kakao"
    by (simp add: example_state_def)
  from handleCallback_mismatch_stops_flow [OF n example_validate m,
         of example_net "example_repo nickname_unused" example_digest "''code1''"
            "''10.0.0.1''" "''https://damoang.net''"]
  show ?thesis
    by (simp add: example_matching_callback) (simp add: example_world_def)
qed

text \<open>
  C10. The state cookie is deleted by the validation that precedes the comparison of
  providers. So after a callback that fails on the provider mismatch the cookie is
  absent, no validation of any string at any later time succeeds on the cookies it
  leaves, and a callback with the same state string, whatever its provider, ends in
  \<open>invalid_state\<close>.
\<close>

theorem state_consumed_before_provider_check:
  assumes "normalizeProviderName slug = Some pn"
      and "validateOAuthState (parse_state C) (w_cookies w) (clock_now A) st
             = (Some data, cks)"
      and "sd_provider data \<noteq> pn"
  shows "w_cookies (snd (handleCallback C N R hashSessionId A w slug code st clientIp origin))
           STATE_COOKIE_NAME = None
       \<and> validateOAuthState P
           (w_cookies (snd (handleCallback C N R hashSessionId A w slug code st clientIp origin)))
           now' st'
           = (None,
              w_cookies (snd (handleCallback C N R hashSessionId A w slug code st clientIp
                                origin)))
       \<and> (normalizeProviderName slug' = Some pn' \<longrightarrow>
            handleCallback C' N' R' hashSessionId' A'
              (snd (handleCallback C N R hashSessionId A w slug code st clientIp origin))
              slug' code' st' clientIp' origin'
            = (Redirect 302 ''/login?error=invalid_state'',
               snd (handleCallback C N R hashSessionId A w slug code st clientIp origin)))"
proof -
  let ?w' = "snd (handleCallback C N R hashSessionId A w slug code st clientIp origin)"
  have w': "?w' = w\<lparr> w_cookies := (w_cookies w)(STATE_COOKIE_NAME := None) \<rparr>"
    by (simp add: handleCallback_provider_mismatch [OF assms])
  have c: "w_cookies ?w' STATE_COOKIE_NAME = None"
    by (simp add: w')
  have v: "validateOAuthState Q (w_cookies ?w') t s = (None, w_cookies ?w')" for Q t s
    using c by (rule validateOAuthState_no_cookie)
  have r: "handleCallback C' N' R' hashSessionId' A' ?w' slug' code' st' clientIp' origin'
            = (Redirect 302 ''/login?error=invalid_state'', ?w')"
    if "normalizeProviderName slug' = Some pn'"
    using that c by (rule handleCallback_without_state_cookie)
  from c v r show ?thesis by blast
qed

theorem state_consumed_before_provider_check_witness:
  "w_cookies (snd (handleCallback example_codec example_net (example_repo nickname_unused)
          example_digest example_ambient example_world ''Kakao'' ''code1'' ''s0''
          ''10.0.0.1'' ''https://damoang.net'')) STATE_COOKIE_NAME = None
   \<and> validateOAuthState example_parse_state
        (w_cookies (snd (handleCallback example_codec example_net
          (example_repo nickname_unused) example_digest example_ambient example_world
          ''Kakao'' ''code1'' ''s0'' ''10.0.0.1'' ''https://damoang.net'')))
        6002 ''s0''
     = (None, w_cookies (snd (handleCallback example_codec example_net
          (example_repo nickname_unused) example_digest example_ambient example_world
          ''Kakao'' ''code1'' ''s0'' ''10.0.0.1'' ''https://damoang.net'')))
   \<and> fst (handleCallback example_codec example_net (example_repo nickname_unused)
          example_digest example_ambient
          (snd (handleCallback example_codec example_net (example_repo nickname_unused)
                  example_digest example_ambient example_world ''Kakao'' ''code1'' ''s0''
                  ''10.0.0.1'' ''https://damoang.net''))
          ''naver'' ''code1'' ''s0'' ''10.0.0.1'' ''https://damoang.net'')
     = Redirect 302 ''/login?error=invalid_state''
   \<and> fst (handleCallback example_codec example_net (example_repo nickname_unused)
          example_digest example_ambient example_world
          ''naver'' ''code1'' ''s0'' ''10.0.0.1'' ''https://damoang.net'')
     = Redirect 302 ''/free''"
proof -
  have n: "normalizeProviderName ''Kakao'' = Some Kakao"
    and n': "normalizeProviderName ''naver'' = Some Naver"
    by (simp_all add: example_normalize)
  have m: "sd_provider example_state \<noteq> Kakao"
    by (simp add: example_state_def)
  from state_consumed_before_provider_check [OF n example_validate m,
         of example_net "example_repo nickname_unused" example_digest "''code1''"
            "''10.0.0.1''" "''https://damoang.net''" example_parse_state 6002 "''s0''"
            "''naver''" Naver example_codec example_net "example_repo nickname_unused"
            example_digest example_ambient "''code1''" "''10.0.0.1''"
            "''https://damoang.net''"] n'
  show ?thesis
    by (simp add: example_matching_callback)
qed

section \<open>Properties of authentication from cookies\<close>

lemma getAuthUser_by_refresh_token:
  assumes s1: "fst (auth_by_session R hashSessionId (w_db w) now dbNow (w_cookies w)
                      (w_sessions w)) = None"
      and s2: "auth_by_access_token J now (w_cookies w) = None"
      and s3: "auth_by_refresh_token J R (w_db w) now (w_cookies w) = Some user"
  shows "fst (getAuthUser J L R hashSessionId now dbNow (w\<lparr> w_tokens := toks \<rparr>)) = Some user
       \<and> w_tokens (snd (getAuthUser J L R hashSessionId now dbNow (w\<lparr> w_tokens := toks \<rparr>)))
           = toks"
proof -
  obtain u sess where a: "auth_by_session R hashSessionId (w_db w) now dbNow (w_cookies w)
                      (w_sessions w) = (u, sess)"
    by (cases "auth_by_session R hashSessionId (w_db w) now dbNow (w_cookies w)
                      (w_sessions w)")
  with s1 have u: "u = None" by simp
  show ?thesis
    by (simp add: getAuthUser_def a u s2 s3 Let_def)
qed

text \<open>
  C9. When neither the session cookie nor the access token authenticates the request,
  \<open>getAuthUser\<close> falls back to the \<open>refresh_token\<close> cookie and decides by the signed
  token alone: if the token verifies (signature, issuer, expiry) and its subject is the
  id of an existing member, that member is returned as the authenticated user, whatever
  the refresh token table holds. The table is neither read nor written; in particular
  the member is returned when the row of the token is revoked and store validation of
  the same token returns nothing, also on the table that family-wide revocation leaves.
\<close>

theorem getAuthUser_refresh_token_ignores_store:
  assumes "fst (auth_by_session R hashSessionId (w_db w) now dbNow (w_cookies w)
                  (w_sessions w)) = None"
      and "auth_by_access_token J now (w_cookies w) = None"
      and "w_cookies w ''refresh_token'' = Some tok" and "tok \<noteq> []"
      and "verifyToken J now tok = Some payload"
      and "sub payload = Some s" and "s \<noteq> []"
      and "getMemberById R (w_db w) s = Some member"
  shows "fst (getAuthUser J L R hashSessionId now dbNow (w\<lparr> w_tokens := toks \<rparr>))
           = Some \<lparr> au_mb_id = Some (mb_id member),
                    au_mb_name = js_or (mb_nick member) (mb_name member),
                    au_mb_level = (case mb_level member of None \<Rightarrow> 0 | Some n \<Rightarrow> n),
                    au_mb_email = mb_email member \<rparr>
       \<and> w_tokens (snd (getAuthUser J L R hashSessionId now dbNow (w\<lparr> w_tokens := toks \<rparr>)))
           = toks
       \<and> (find (\<lambda>r. token_hash r = hashToken J tok) toks = Some row
            \<and> revoked_at row \<noteq> None \<longrightarrow>
          fst (findValidToken toks now dbNow (hashToken J tok)) = None
          \<and> fst (getAuthUser J L R hashSessionId now dbNow
                  (w\<lparr> w_tokens := snd (findValidToken toks now dbNow (hashToken J tok)) \<rparr>))
              = Some \<lparr> au_mb_id = Some (mb_id member),
                    au_mb_name = js_or (mb_nick member) (mb_name member),
                    au_mb_level = (case mb_level member of None \<Rightarrow> 0 | Some n \<Rightarrow> n),
                    au_mb_email = mb_email member \<rparr>)"
proof -
  let ?user = "\<lparr> au_mb_id = Some (mb_id member),
                    au_mb_name = js_or (mb_nick member) (mb_name member),
                    au_mb_level = (case mb_level member of None \<Rightarrow> 0 | Some n \<Rightarrow> n),
                    au_mb_email = mb_email member \<rparr>"
  have um: "user_of_member member = ?user"
    by (simp add: user_of_member_def js_or_def)
  have s3: "auth_by_refresh_token J R (w_db w) now (w_cookies w) = Some ?user"
    using assms(3-8) by (simp add: auth_by_refresh_token_def truthy_def um)
  note g = getAuthUser_by_refresh_token [OF assms(1) assms(2) s3]
  have r: "fst (findValidToken toks now dbNow (hashToken J tok)) = None"
    if "find (\<lambda>r. token_hash r = hashToken J tok) toks = Some row \<and> revoked_at row \<noteq> None"
    using that by (simp add: findValidToken_def)
  from g [of L toks] g [of L "snd (findValidToken toks now dbNow (hashToken J tok))"] r
  show ?thesis by blast
qed

theorem getAuthUser_refresh_token_ignores_store_witness:
  "findValidToken example_rotated 40 41 (hashToken example_jose ''t0'')
     = (None, [example_issued ''t0'' 10 11 (Some 21), example_issued ''t1'' 20 21 (Some 41)])
   \<and> fst (getAuthUser example_jose (\<lambda>t n. None) (example_repo nickname_unused)
            example_digest 40 41
            (example_auth_world
               \<lparr> w_tokens := snd (findValidToken example_rotated 40 41
                                     (hashToken example_jose ''t0'')) \<rparr>))
     = Some \<lparr> au_mb_id = Some ''u1'', au_mb_name = ''bob'', au_mb_level = 2,
              au_mb_email = ''bob@example.org'' \<rparr>"
proof -
  let ?R = "example_repo nickname_unused"
  let ?w = example_auth_world
  have a1: "fst (auth_by_session ?R example_digest (w_db ?w) 40 41 (w_cookies ?w)
                  (w_sessions ?w)) = None"
    by (simp add: auth_by_session_def example_auth_world_def truthy_def
          SESSION_COOKIE_NAME_def)
  have a2: "auth_by_access_token example_jose 40 (w_cookies ?w) = None"
    by (simp add: auth_by_access_token_def example_auth_world_def truthy_def)
  have a3: "w_cookies ?w ''refresh_token'' = Some ''t0''"
    by (simp add: example_auth_world_def)
  have a4: "''t0'' \<noteq> []" by simp
  have a5: "verifyToken example_jose 40 ''t0''
             = Some \<lparr> sub = Some ''u1'', nickname = [], level = 0, jwt_email = [] \<rparr>"
    by (simp add: verifyToken_def example_jose_def example_claims_def opt_or_def)
  have a6: "sub \<lparr> sub = Some ''u1'', nickname = [], level = 0, jwt_email = [] \<rparr> = Some ''u1''"
    by simp
  have a7: "''u1'' \<noteq> []" by simp
  have a8: "getMemberById ?R (w_db ?w) ''u1'' = Some example_member"
    by (simp add: example_repo_def example_auth_world_def example_member_def)
  have f: "find (\<lambda>r. token_hash r = hashToken example_jose ''t0'') example_rotated
             = Some (example_issued ''t0'' 10 11 (Some 21))
           \<and> revoked_at (example_issued ''t0'' 10 11 (Some 21)) \<noteq> None"
    by (simp add: example_rotated_def example_issued_def example_jose_def example_digest_def)
  have fv: "findValidToken example_rotated 40 41 (hashToken example_jose ''t0'')
     = (None, [example_issued ''t0'' 10 11 (Some 21), example_issued ''t1'' 20 21 (Some 41)])"
    by (simp add: findValidToken_def revokeTokenFamily_def example_rotated_def
          example_issued_def example_jose_def example_digest_def)
  from getAuthUser_refresh_token_ignores_store [OF a1 a2 a3 a4 a5 a6 a7 a8,
         where L = "\<lambda>t n. None" and toks = example_rotated
           and row = "example_issued ''t0'' 10 11 (Some 21)"] f
  have "fst (getAuthUser example_jose (\<lambda>t n. None) ?R example_digest 40 41
            (?w \<lparr> w_tokens := snd (findValidToken example_rotated 40 41
                                     (hashToken example_jose ''t0'')) \<rparr>))
     = Some \<lparr> au_mb_id = Some (mb_id example_member),
              au_mb_name = js_or (mb_nick example_member) (mb_name example_member),
              au_mb_level = (case mb_level example_member of None \<Rightarrow> 0 | Some n \<Rightarrow> n),
              au_mb_email = mb_email example_member \<rparr>"
    by blast
  then show ?thesis
    by (simp add: fv example_member_def js_or_def)
qed

section \<open>Properties of social registration\<close>

lemma register_try_first_call:
  "take (Suc (length (w_calls w)))
     (w_calls (case register_try J R hashSessionId A w sp nick memberId clientIp redirectUrl of
                 Inl w' \<Rightarrow> w' | Inr answer \<Rightarrow> snd answer))
     = w_calls w @ [CreateMember \<lparr> nm_mb_id = memberId, nm_mb_nick = nick,
                                  nm_mb_email = pp_email sp, nm_mb_name = nick,
                                  nm_mb_ip = clientIp \<rparr>]"
  by (simp add: register_try_def Let_def called_def set_cookie_def delete_cookie_def
        split: option.split sum.split prod.split)

lemma register_action_guards_passed:
  assumes g1: "fst (checkRateLimit R (w_db w) clientIp ''register'' 5 (60 * 60 * 1000)
                      (clock_now A))"
      and g2: "verifyTurnstile R (opt_or (form_turnstile form) []) clientIp"
      and g3: "w_cookies w ''pending_social_register'' = Some raw" "raw \<noteq> []"
              "parse_pending C raw = Some sp"
      and g4: "form_agree_terms form = Some ''on''" "form_agree_privacy form = Some ''on''"
      and nick: "nick = (case form_nickname form of None \<Rightarrow> [] | Some s \<Rightarrow> trim s)"
      and db1: "db1 = recordAttempt R (w_db w) clientIp ''register'' (clock_now A)"
      and gen: "generated = generateSocialMbId R (pp_provider sp) (pp_identifier sp)"
  shows "register_action C J R hashSessionId A w form clientIp
           = (if \<not> fst (validateNickname R db1 nick)
              then (Fail 400 (NicknameRejected (snd (validateNickname R db1 nick))) nick,
                    w\<lparr> w_db := db1, w_calls := w_calls w @ [ValidateNickname nick] \<rparr>)
              else (case register_try J R hashSessionId A
                           (w\<lparr> w_db := db1,
                               w_calls := w_calls w @ [ValidateNickname nick,
                                                       IsMbIdTaken generated] \<rparr>)
                           sp nick
                           (if isMbIdTaken R db1 generated
                            then generated @ ''_'' @ rand_suffix A else generated)
                           clientIp (opt_or (form_redirect form) ''/'') of
                      Inl w' \<Rightarrow> (Fail 500 RegisterFailed nick, w')
                    | Inr answer \<Rightarrow> answer))"
proof -
  have n: "(case form_nickname form of None \<Rightarrow> [] | Some s \<Rightarrow> js_or (trim s) []) = nick"
    by (simp add: nick js_or_def split: option.split)
  show ?thesis
    unfolding register_action_def n Let_def
    using g1 g2 g3 g4
    by (simp add: truthy_def called_def db1 [symmetric] gen [symmetric])
qed

lemma snd_catch:
  "snd (case x of Inl w' \<Rightarrow> (f, w') | Inr answer \<Rightarrow> answer)
     = (case x of Inl w' \<Rightarrow> w' | Inr answer \<Rightarrow> snd answer)"
  by (cases x) simp_all

text \<open>The action on the example data.\<close>

lemma example_trim:
  "trim ''bob'' = ''bob'' \<and> trim '' ann  '' = ''ann''"
  by (simp add: trim_def is_space_def)

lemma example_register_run:
  "register_action example_codec example_jose (example_repo check) example_digest
      example_ambient (example_reg_world\<lparr> w_db := db \<rparr>) (example_form submitted)
      ''10.0.0.1''
     = (if \<not> fst (check db (trim submitted))
        then (Fail 400 (NicknameRejected (snd (check db (trim submitted)))) (trim submitted),
              example_reg_world\<lparr> w_db := db, w_calls := [ValidateNickname (trim submitted)] \<rparr>)
        else (case register_try example_jose (example_repo check) example_digest
                     example_ambient
                     (example_reg_world
                        \<lparr> w_db := db,
                          w_calls := [ValidateNickname (trim submitted),
                                      IsMbIdTaken ''naver_n2''] \<rparr>)
                     example_pending (trim submitted)
                     (if find (\<lambda>m. mb_id m = ''naver_n2'') (fst db) \<noteq> None
                      then ''naver_n2_0a1b2c3d'' else ''naver_n2'')
                     ''10.0.0.1'' ''/'' of
                Inl w' \<Rightarrow> (Fail 500 RegisterFailed (trim submitted), w')
              | Inr answer \<Rightarrow> answer))"
proof -
  let ?R = "example_repo check"
  let ?w = "example_reg_world\<lparr> w_db := db \<rparr>"
  have g1: "fst (checkRateLimit ?R (w_db ?w) ''10.0.0.1'' ''register'' 5 (60 * 60 * 1000)
                  (clock_now example_ambient))"
    by (simp add: example_repo_def)
  have g2: "verifyTurnstile ?R (opt_or (form_turnstile (example_form submitted)) [])
              ''10.0.0.1''"
    by (simp add: example_repo_def)
  have g3: "w_cookies ?w ''pending_social_register'' = Some ''pending=n2''"
    by (simp add: example_reg_world_def)
  have g4: "''pending=n2'' \<noteq> []" by simp
  have g5: "parse_pending example_codec ''pending=n2'' = Some example_pending"
    by (simp add: example_codec_def)
  have g6: "form_agree_terms (example_form submitted) = Some ''on''"
    and g7: "form_agree_privacy (example_form submitted) = Some ''on''"
    by (simp_all add: example_form_def)
  have n: "trim submitted
             = (case form_nickname (example_form submitted) of None \<Rightarrow> []
                | Some s \<Rightarrow> trim s)"
    by (simp add: example_form_def)
  have d: "db = recordAttempt ?R (w_db ?w) ''10.0.0.1'' ''register''
                  (clock_now example_ambient)"
    by (simp add: example_repo_def)
  have g: "''naver_n2'' = generateSocialMbId ?R (pp_provider example_pending)
                            (pp_identifier example_pending)"
    by (simp add: example_repo_def example_pending_def)
  from register_action_guards_passed [OF g1 g2 g3 g4 g5 g6 g7 n d g,
         of example_jose example_digest]
  show ?thesis
    by (simp add: example_repo_def example_ambient_def example_form_def opt_or_def
          example_reg_world_def)
qed

lemma example_register_try:
  "mid \<noteq> ''u1'' \<Longrightarrow>
   register_try example_jose (example_repo check) example_digest example_ambient
      (example_reg_world\<lparr> w_calls := cs \<rparr>) example_pending nick mid ''10.0.0.1'' ''/''
     = Inr (Redirect 302 ''/'',
            \<lparr> w_cookies = [SESSION_COOKIE_NAME \<mapsto> ''sid1'', CSRF_COOKIE_NAME \<mapsto> ''csrf1'',
                           ''refresh_token'' \<mapsto> ''t2''],
              w_sessions = [''#sid1'' \<mapsto>
                 \<lparr> s_mb_id = mid, csrf_token = ''csrf1'', s_ip = Some ''10.0.0.1'',
                   s_user_agent = None, s_created_at = 6001, last_active_at = 6001,
                   s_expires_at = 2592006000 \<rparr>],
              w_tokens =
                [\<lparr> token_hash = ''#t2'', rt_mb_id = mid, family_id = ''fam1'',
                    rt_ip = Some ''10.0.0.1'', rt_user_agent = None, rt_created_at = 6001,
                    rt_expires_at = 604806000, revoked_at = None \<rparr>],
              w_db = ([example_member,
                       \<lparr> mb_id = mid, mb_nick = nick, mb_name = nick, mb_level = Some 2,
                         mb_email = ''new@example.org'' \<rparr>],
                      [\<lparr> sp_provider = ''naver'', sp_identifier = ''n2'', sp_mb_id = mid \<rparr>]),
              w_calls = cs @
                [CreateMember \<lparr> nm_mb_id = mid, nm_mb_nick = nick,
                                nm_mb_email = ''new@example.org'', nm_mb_name = nick,
                                nm_mb_ip = ''10.0.0.1'' \<rparr>,
                 UpsertSocialProfile mid ''naver''
                   \<lparr> provider = ''naver'', profile_identifier = ''n2'', displayName = [],
                     email = ''new@example.org'', photoUrl = [], profileUrl = [] \<rparr>,
                 UpdateLoginTimestamp mid ''10.0.0.1'', GetMemberById mid,
                 CreateSession mid, GenerateRefreshToken mid] \<rparr>)"
  by (simp add: register_try_def Let_def called_def set_cookie_def delete_cookie_def
        example_repo_def example_reg_world_def example_member_def example_pending_def
        example_ambient_def example_jose_def example_digest_def createSession_def
        generateRefreshToken_def storeRefreshToken_def opt_or_def
        SESSION_MAX_AGE_MS_def REFRESH_TOKEN_TTL_MS_def SESSION_COOKIE_NAME_def
        CSRF_COOKIE_NAME_def fun_upd_twist)

text \<open>
  A taken nickname does not lead to a suffix on the member id. On the example data the
  nickname \<open>bob\<close> belongs to a member and the generated member id is free: when
  \<open>validateNickname\<close> rejects taken nicknames the action fails with status 400 and creates
  no member; when it accepts them the member is created under the generated id, without
  suffix. The nickname stored is the submitted one after \<open>trim\<close>.
\<close>

theorem register_taken_nickname_counterexample:
  "find (\<lambda>m. mb_nick m = ''bob'') (fst (w_db example_reg_world)) = Some example_member
   \<and> register_action example_codec example_jose (example_repo nickname_unused)
        example_digest example_ambient example_reg_world (example_form ''bob'') ''10.0.0.1''
     = (Fail 400 (NicknameRejected ''taken'') ''bob'',
        example_reg_world\<lparr> w_calls := [ValidateNickname ''bob''] \<rparr>)
   \<and> fst (w_db (snd (register_action example_codec example_jose
        (example_repo nickname_nonempty) example_digest example_ambient example_reg_world
        (example_form ''bob'') ''10.0.0.1'')))
     = [example_member,
        \<lparr> mb_id = ''naver_n2'', mb_nick = ''bob'', mb_name = ''bob'', mb_level = Some 2,
          mb_email = ''new@example.org'' \<rparr>]
   \<and> fst (w_db (snd (register_action example_codec example_jose
        (example_repo nickname_nonempty) example_digest example_ambient example_reg_world
        (example_form '' ann  '') ''10.0.0.1'')))
     = [example_member,
        \<lparr> mb_id = ''naver_n2'', mb_nick = ''ann'', mb_name = ''ann'', mb_level = Some 2,
          mb_email = ''new@example.org'' \<rparr>]"
proof -
  have w: "example_reg_world\<lparr> w_db := ([example_member], []) \<rparr> = example_reg_world"
    by (simp add: example_reg_world_def)
  have db: "w_db example_reg_world = ([example_member], [])"
    by (simp add: example_reg_world_def)
  have id: "''naver_n2'' \<noteq> ''u1''" by simp
  have taken: "find (\<lambda>m. mb_nick m = ''bob'') (fst (w_db example_reg_world))
                 = Some example_member"
    by (simp add: db example_member_def)
  have strict: "register_action example_codec example_jose (example_repo nickname_unused)
        example_digest example_ambient example_reg_world (example_form ''bob'') ''10.0.0.1''
     = (Fail 400 (NicknameRejected ''taken'') ''bob'',
        example_reg_world\<lparr> w_calls := [ValidateNickname ''bob''] \<rparr>)"
    using example_register_run [of nickname_unused "([example_member], [])" "''bob''", unfolded w]
    by (simp add: example_trim nickname_unused_def example_member_def)
  have lenient: "fst (w_db (snd (register_action example_codec example_jose
        (example_repo nickname_nonempty) example_digest example_ambient example_reg_world
        (example_form ''bob'') ''10.0.0.1'')))
     = [example_member,
        \<lparr> mb_id = ''naver_n2'', mb_nick = ''bob'', mb_name = ''bob'', mb_level = Some 2,
          mb_email = ''new@example.org'' \<rparr>]"
    using example_register_run [of nickname_nonempty "([example_member], [])" "''bob''", unfolded w]
    by (simp add: example_trim nickname_nonempty_def example_member_def
          example_register_try [OF id])
  have trimmed: "fst (w_db (snd (register_action example_codec example_jose
        (example_repo nickname_nonempty) example_digest example_ambient example_reg_world
        (example_form '' ann  '') ''10.0.0.1'')))
     = [example_member,
        \<lparr> mb_id = ''naver_n2'', mb_nick = ''ann'', mb_name = ''ann'', mb_level = Some 2,
          mb_email = ''new@example.org'' \<rparr>]"
    using example_register_run [of nickname_nonempty "([example_member], [])" "'' ann  ''", unfolded w]
    by (simp add: example_trim nickname_nonempty_def example_member_def
          example_register_try [OF id])
  from taken strict lenient trimmed show ?thesis by (intro conjI)
qed

text \<open>
  C8, as the action has it. Once the rate limit, the captcha, the staged profile and the
  consents have passed: a nickname that \<open>validateNickname\<close> rejects ends the action
  with \<open>fail(400)\<close>, before any member id is generated and with no member created;
  otherwise the member is created with the submitted nickname, trimmed, as nickname and
  as name, and with the generated member id, to which an underscore and the random
  hexadecimal suffix are appended exactly when the generated id is already taken.
\<close>

theorem register_action_member_id_and_nickname:
  assumes "fst (checkRateLimit R (w_db w) clientIp ''register'' 5 (60 * 60 * 1000)
                  (clock_now A))"
      and "verifyTurnstile R (opt_or (form_turnstile form) []) clientIp"
      and "w_cookies w ''pending_social_register'' = Some raw" and "raw \<noteq> []"
      and "parse_pending C raw = Some sp"
      and "form_agree_terms form = Some ''on''" and "form_agree_privacy form = Some ''on''"
      and "nick = (case form_nickname form of None \<Rightarrow> [] | Some s \<Rightarrow> trim s)"
      and "db1 = recordAttempt R (w_db w) clientIp ''register'' (clock_now A)"
      and "generated = generateSocialMbId R (pp_provider sp) (pp_identifier sp)"
  shows "(\<not> fst (validateNickname R db1 nick) \<longrightarrow>
            register_action C J R hashSessionId A w form clientIp
              = (Fail 400 (NicknameRejected (snd (validateNickname R db1 nick))) nick,
                 w\<lparr> w_db := db1, w_calls := w_calls w @ [ValidateNickname nick] \<rparr>))
       \<and> (fst (validateNickname R db1 nick) \<longrightarrow>
            take (length (w_calls w) + 3)
              (w_calls (snd (register_action C J R hashSessionId A w form clientIp)))
              = w_calls w @
                [ValidateNickname nick, IsMbIdTaken generated,
                 CreateMember
                   \<lparr> nm_mb_id = (if isMbIdTaken R db1 generated
                                 then generated @ ''_'' @ rand_suffix A else generated),
                     nm_mb_nick = nick, nm_mb_email = pp_email sp, nm_mb_name = nick,
                     nm_mb_ip = clientIp \<rparr>])"
proof -
  note nf = register_action_guards_passed [OF assms, of J hashSessionId]
  let ?w3 = "w\<lparr> w_db := db1,
                 w_calls := w_calls w @ [ValidateNickname nick, IsMbIdTaken generated] \<rparr>"
  let ?id = "if isMbIdTaken R db1 generated
             then generated @ ''_'' @ rand_suffix A else generated"
  have rejected: "register_action C J R hashSessionId A w form clientIp
              = (Fail 400 (NicknameRejected (snd (validateNickname R db1 nick))) nick,
                 w\<lparr> w_db := db1, w_calls := w_calls w @ [ValidateNickname nick] \<rparr>)"
    if "\<not> fst (validateNickname R db1 nick)"
    using that by (simp add: nf)
  have accepted: "take (length (w_calls w) + 3)
              (w_calls (snd (register_action C J R hashSessionId A w form clientIp)))
              = w_calls w @
                [ValidateNickname nick, IsMbIdTaken generated,
                 CreateMember \<lparr> nm_mb_id = ?id, nm_mb_nick = nick, nm_mb_email = pp_email sp,
                                nm_mb_name = nick, nm_mb_ip = clientIp \<rparr>]"
    if ok: "fst (validateNickname R db1 nick)"
  proof -
    have len: "Suc (length (w_calls ?w3)) = length (w_calls w) + 3" by simp
    from register_try_first_call [of ?w3 J R hashSessionId A sp nick ?id clientIp
           "opt_or (form_redirect form) ''/''"]
    show ?thesis
      unfolding len by (simp add: nf ok snd_catch)
  qed
  from rejected accepted show ?thesis by blast
qed

theorem register_action_member_id_and_nickname_witness:
  "register_action example_codec example_jose (example_repo nickname_unused)
        example_digest example_ambient example_reg_world (example_form ''bob'') ''10.0.0.1''
     = (Fail 400 (NicknameRejected ''taken'') ''bob'',
        example_reg_world\<lparr> w_calls := [ValidateNickname ''bob''] \<rparr>)
   \<and> take 3 (w_calls (snd (register_action example_codec example_jose
        (example_repo nickname_unused) example_digest example_ambient
        (example_reg_world\<lparr> w_db := ([example_member, example_squatter], []) \<rparr>)
        (example_form '' ann  '') ''10.0.0.1'')))
     = [ValidateNickname ''ann'', IsMbIdTaken ''naver_n2'',
        CreateMember \<lparr> nm_mb_id = ''naver_n2_0a1b2c3d'', nm_mb_nick = ''ann'',
                       nm_mb_email = ''new@example.org'', nm_mb_name = ''ann'',
                       nm_mb_ip = ''10.0.0.1'' \<rparr>]"
proof -
  let ?R = "example_repo nickname_unused"
  let ?db2 = "([example_member, example_squatter], []) :: example_db"
  let ?w2 = "example_reg_world\<lparr> w_db := ?db2 \<rparr>"
  have g1: "fst (checkRateLimit ?R (w_db w) ''10.0.0.1'' ''register'' 5 (60 * 60 * 1000)
                  (clock_now example_ambient))" for w :: "example_db world"
    by (simp add: example_repo_def)
  have g2: "verifyTurnstile ?R (opt_or (form_turnstile (example_form n)) []) ''10.0.0.1''"
    for n
    by (simp add: example_repo_def)
  have g3: "w_cookies example_reg_world ''pending_social_register'' = Some ''pending=n2''"
    and g3': "w_cookies ?w2 ''pending_social_register'' = Some ''pending=n2''"
    by (simp_all add: example_reg_world_def)
  have g4: "''pending=n2'' \<noteq> []" by simp
  have g5: "parse_pending example_codec ''pending=n2'' = Some example_pending"
    by (simp add: example_codec_def)
  have g6: "form_agree_terms (example_form n) = Some ''on''"
    and g7: "form_agree_privacy (example_form n) = Some ''on''" for n
    by (simp_all add: example_form_def)
  have n1: "''bob'' = (case form_nickname (example_form ''bob'') of None \<Rightarrow> []
                       | Some s \<Rightarrow> trim s)"
    and n2: "''ann'' = (case form_nickname (example_form '' ann  '') of None \<Rightarrow> []
                       | Some s \<Rightarrow> trim s)"
    by (simp_all add: example_form_def example_trim)
  have d1: "([example_member], []) = recordAttempt ?R (w_db example_reg_world) ''10.0.0.1''
              ''register'' (clock_now example_ambient)"
    and d2: "?db2 = recordAttempt ?R (w_db ?w2) ''10.0.0.1'' ''register''
              (clock_now example_ambient)"
    by (simp_all add: example_repo_def example_reg_world_def)
  have g: "''naver_n2'' = generateSocialMbId ?R (pp_provider example_pending)
                            (pp_identifier example_pending)"
    by (simp add: example_repo_def example_pending_def)
  have v1: "\<not> fst (validateNickname ?R ([example_member], []) ''bob'')"
    and v1': "snd (validateNickname ?R ([example_member], []) ''bob'') = ''taken''"
    and v2: "fst (validateNickname ?R ?db2 ''ann'')"
    and t2: "isMbIdTaken ?R ?db2 ''naver_n2''"
    by (simp_all add: example_repo_def nickname_unused_def example_member_def
          example_squatter_def)
  have w1: "example_reg_world\<lparr> w_db := ([example_member], []),
                               w_calls := w_calls example_reg_world @ [ValidateNickname ''bob''] \<rparr>
              = example_reg_world\<lparr> w_calls := [ValidateNickname ''bob''] \<rparr>"
    by (simp add: example_reg_world_def)
  from register_action_member_id_and_nickname
         [OF g1 g2 g3 g4 g5 g6 g7 n1 d1 g, of example_jose example_digest] v1
  have a: "register_action example_codec example_jose ?R example_digest example_ambient
             example_reg_world (example_form ''bob'') ''10.0.0.1''
     = (Fail 400 (NicknameRejected (snd (validateNickname ?R ([example_member], []) ''bob'')))
          ''bob'',
        example_reg_world\<lparr> w_db := ([example_member], []),
                            w_calls := w_calls example_reg_world @ [ValidateNickname ''bob''] \<rparr>)"
    by blast
  from register_action_member_id_and_nickname
         [OF g1 g2 g3' g4 g5 g6 g7 n2 d2 g, of example_jose example_digest] v2
  have b: "take (length (w_calls ?w2) + 3)
              (w_calls (snd (register_action example_codec example_jose ?R example_digest
                  example_ambient ?w2 (example_form '' ann  '') ''10.0.0.1'')))
              = w_calls ?w2 @
                [ValidateNickname ''ann'', IsMbIdTaken ''naver_n2'',
                 CreateMember
                   \<lparr> nm_mb_id = (if isMbIdTaken ?R ?db2 ''naver_n2''
                                 then ''naver_n2'' @ ''_'' @ rand_suffix example_ambient
                                 else ''naver_n2''),
                     nm_mb_nick = ''ann'', nm_mb_email = pp_email example_pending,
                     nm_mb_name = ''ann'', nm_mb_ip = ''10.0.0.1'' \<rparr>]"
    by blast
  have c: "w_calls ?w2 = []" by (simp add: example_reg_world_def)
  from a have a': "register_action example_codec example_jose ?R example_digest
             example_ambient example_reg_world (example_form ''bob'') ''10.0.0.1''
     = (Fail 400 (NicknameRejected ''taken'') ''bob'',
        example_reg_world\<lparr> w_calls := [ValidateNickname ''bob''] \<rparr>)"
    by (simp only: v1' w1)
  from b have b': "take 3 (w_calls (snd (register_action example_codec example_jose ?R
        example_digest example_ambient ?w2 (example_form '' ann  '') ''10.0.0.1'')))
     = [ValidateNickname ''ann'', IsMbIdTaken ''naver_n2'',
        CreateMember \<lparr> nm_mb_id = ''naver_n2_0a1b2c3d'', nm_mb_nick = ''ann'',
                       nm_mb_email = ''new@example.org'', nm_mb_name = ''ann'',
                       nm_mb_ip = ''10.0.0.1'' \<rparr>]"
    unfolding c by (simp add: t2 example_ambient_def example_pending_def)
  from a' b' show ?thesis by (rule conjI)
qed

end
